theory Spec2Isabelle
  imports Complex_Main "HOL-Library.Log_Nat"
begin

section \<open>Python numbers\<close>

text \<open>
  The negotiation code computes with Python \<open>int\<close> (unbounded) and \<open>float\<close> (IEEE 754
  binary64, round to nearest, ties to even). A Python number is modelled by its exact
  value: a rational (every \<open>int\<close> and every finite \<open>float\<close> is one), an infinity or NaN.
  Python compares an \<open>int\<close> with a \<open>float\<close> by exact value, so the embedding of an
  \<open>int\<close> by \<open>exact\<close> keeps every comparison, and \<open>int(...)\<close> of an embedded \<open>int\<close> gives
  the \<open>int\<close> back.
\<close>

datatype py_error =
  OverflowError | ValueError | ZeroDivisionError | AttributeError | IndexError | Raised string

datatype pyfloat = Finite rat | PosInf | NegInf | NaN

definition pybind :: "py_error + 'a \<Rightarrow> ('a \<Rightarrow> py_error + 'b) \<Rightarrow> py_error + 'b" where
  "pybind m f = (case m of Inl e \<Rightarrow> Inl e | Inr v \<Rightarrow> f v)"

definition pow2 :: "int \<Rightarrow> rat" where
  "pow2 e = (if 0 \<le> e then 2 ^ nat e else 1 / 2 ^ nat (- e))"

text \<open>\<open>ilog2 x\<close> is the binary exponent of a non-zero \<open>x\<close>: \<open>2 ^ e \<le> |x| < 2 ^ (e + 1)\<close>.\<close>

definition ilog2 :: "rat \<Rightarrow> int" where
  "ilog2 x = (if 1 \<le> \<bar>x\<bar> then bitlen \<lfloor>\<bar>x\<bar>\<rfloor> - 1 else - bitlen (\<lceil>1 / \<bar>x\<bar>\<rceil> - 1))"

definition round_half_even :: "rat \<Rightarrow> int" where
  "round_half_even x = (let f = \<lfloor>x\<rfloor>; d = x - of_int f in
     if d < 1 / 2 then f else if 1 / 2 < d then f + 1 else if even f then f else f + 1)"

text \<open>
  \<open>fl x\<close> rounds an exact value to binary64: 53 significant bits, exponents from
  \<open>-1022\<close> (below it the spacing stays \<open>2 ^ -1074\<close>), ties to even, and an infinity once
  the rounded magnitude reaches \<open>2 ^ 1024\<close>.
\<close>

definition fl :: "rat \<Rightarrow> pyfloat" where
  "fl x = (if x = 0 then Finite 0 else
     let e = max (ilog2 x) (- 1022);
         u = pow2 (e - 52);
         y = of_int (round_half_even (x / u)) * u
     in if pow2 1024 \<le> \<bar>y\<bar> then (if 0 < x then PosInf else NegInf) else Finite y)"

definition exact :: "int \<Rightarrow> pyfloat" where
  "exact n = Finite (of_int n)"

text \<open>Conversion of an \<open>int\<close> operand to \<open>float\<close>: correctly rounded, OverflowError when too large.\<close>

definition float_of_int :: "int \<Rightarrow> py_error + pyfloat" where
  "float_of_int n = (case fl (of_int n) of Finite y \<Rightarrow> Inr (Finite y) | _ \<Rightarrow> Inl OverflowError)"

definition fmul :: "pyfloat \<Rightarrow> pyfloat \<Rightarrow> pyfloat" where
  "fmul a b = (case (a, b) of
       (Finite x, Finite y) \<Rightarrow> fl (x * y)
     | (NaN, _) \<Rightarrow> NaN
     | (_, NaN) \<Rightarrow> NaN
     | (Finite x, PosInf) \<Rightarrow> (if 0 < x then PosInf else if x < 0 then NegInf else NaN)
     | (Finite x, NegInf) \<Rightarrow> (if 0 < x then NegInf else if x < 0 then PosInf else NaN)
     | (PosInf, Finite y) \<Rightarrow> (if 0 < y then PosInf else if y < 0 then NegInf else NaN)
     | (NegInf, Finite y) \<Rightarrow> (if 0 < y then NegInf else if y < 0 then PosInf else NaN)
     | (PosInf, PosInf) \<Rightarrow> PosInf
     | (NegInf, NegInf) \<Rightarrow> PosInf
     | (PosInf, NegInf) \<Rightarrow> NegInf
     | (NegInf, PosInf) \<Rightarrow> NegInf)"

definition fadd :: "pyfloat \<Rightarrow> pyfloat \<Rightarrow> pyfloat" where
  "fadd a b = (case (a, b) of
       (Finite x, Finite y) \<Rightarrow> fl (x + y)
     | (NaN, _) \<Rightarrow> NaN
     | (_, NaN) \<Rightarrow> NaN
     | (PosInf, NegInf) \<Rightarrow> NaN
     | (NegInf, PosInf) \<Rightarrow> NaN
     | (PosInf, _) \<Rightarrow> PosInf
     | (NegInf, _) \<Rightarrow> NegInf
     | (_, PosInf) \<Rightarrow> PosInf
     | (_, NegInf) \<Rightarrow> NegInf)"

definition fneg :: "pyfloat \<Rightarrow> pyfloat" where
  "fneg a = (case a of Finite x \<Rightarrow> Finite (- x) | PosInf \<Rightarrow> NegInf | NegInf \<Rightarrow> PosInf | NaN \<Rightarrow> NaN)"

definition fsub :: "pyfloat \<Rightarrow> pyfloat \<Rightarrow> pyfloat" where
  "fsub a b = fadd a (fneg b)"

text \<open>\<open>n * c\<close> and \<open>c * n\<close> for an \<open>int\<close> \<open>n\<close> and a \<open>float\<close> \<open>c\<close>.\<close>

definition imul :: "int \<Rightarrow> pyfloat \<Rightarrow> py_error + pyfloat" where
  "imul n c = pybind (float_of_int n) (\<lambda>x. Inr (fmul x c))"

text \<open>\<open>a / b\<close> for two \<open>int\<close>s: the correctly rounded quotient.\<close>

definition int_truediv :: "int \<Rightarrow> int \<Rightarrow> py_error + pyfloat" where
  "int_truediv a b = (if b = 0 then Inl ZeroDivisionError
     else case fl (of_int a / of_int b) of Finite y \<Rightarrow> Inr (Finite y) | _ \<Rightarrow> Inl OverflowError)"

definition trunc :: "rat \<Rightarrow> int" where
  "trunc r = (if 0 \<le> r then \<lfloor>r\<rfloor> else \<lceil>r\<rceil>)"

text \<open>\<open>int(x)\<close> truncates towards zero; \<open>round(x)\<close> rounds to the nearest \<open>int\<close>, ties to even.\<close>

definition py_int :: "pyfloat \<Rightarrow> py_error + int" where
  "py_int a = (case a of Finite r \<Rightarrow> Inr (trunc r) | NaN \<Rightarrow> Inl ValueError | _ \<Rightarrow> Inl OverflowError)"

definition py_round :: "pyfloat \<Rightarrow> py_error + int" where
  "py_round a = (case a of Finite r \<Rightarrow> Inr (round_half_even r) | NaN \<Rightarrow> Inl ValueError | _ \<Rightarrow> Inl OverflowError)"

definition py_lt :: "pyfloat \<Rightarrow> pyfloat \<Rightarrow> bool" where
  "py_lt a b = (case (a, b) of
       (NaN, _) \<Rightarrow> False
     | (_, NaN) \<Rightarrow> False
     | (Finite x, Finite y) \<Rightarrow> x < y
     | (NegInf, NegInf) \<Rightarrow> False
     | (NegInf, _) \<Rightarrow> True
     | (_, NegInf) \<Rightarrow> False
     | (PosInf, _) \<Rightarrow> False
     | (_, PosInf) \<Rightarrow> True)"

definition py_le :: "pyfloat \<Rightarrow> pyfloat \<Rightarrow> bool" where
  "py_le a b = (case (a, b) of
       (NaN, _) \<Rightarrow> False
     | (_, NaN) \<Rightarrow> False
     | (Finite x, Finite y) \<Rightarrow> x \<le> y
     | (NegInf, _) \<Rightarrow> True
     | (_, PosInf) \<Rightarrow> True
     | (PosInf, _) \<Rightarrow> False
     | (_, NegInf) \<Rightarrow> False)"

text \<open>
  The builtins \<open>max\<close> and \<open>min\<close> keep their first argument and replace it by a later one
  only when that one is strictly greater (smaller).
\<close>

definition py_max2 :: "pyfloat \<Rightarrow> pyfloat \<Rightarrow> pyfloat" where
  "py_max2 a b = (if py_lt a b then b else a)"

definition py_min2 :: "pyfloat \<Rightarrow> pyfloat \<Rightarrow> pyfloat" where
  "py_min2 a b = (if py_lt b a then b else a)"

definition py_max3 :: "pyfloat \<Rightarrow> pyfloat \<Rightarrow> pyfloat \<Rightarrow> pyfloat" where
  "py_max3 a b c = py_max2 (py_max2 a b) c"

section \<open>Python strings\<close>

text \<open>
  A \<open>str\<close> is modelled as a list of characters with code points below 256 (Latin-1);
  \<open>str.strip\<close> removes white space at both ends and \<open>str.lower\<close> maps every cased
  character to lower case.
\<close>

definition py_isspace :: "char \<Rightarrow> bool" where
  "py_isspace c = (let n = (of_char c :: nat) in
     (9 \<le> n \<and> n \<le> 13) \<or> (28 \<le> n \<and> n \<le> 32) \<or> n = 133 \<or> n = 160)"

definition py_lower_char :: "char \<Rightarrow> char" where
  "py_lower_char c = (let n = (of_char c :: nat) in
     if (65 \<le> n \<and> n \<le> 90) \<or> (192 \<le> n \<and> n \<le> 222 \<and> n \<noteq> 215) then char_of (n + 32) else c)"

definition strip :: "string \<Rightarrow> string" where
  "strip s = rev (dropWhile py_isspace (rev (dropWhile py_isspace s)))"

definition lower :: "string \<Rightarrow> string" where
  "lower s = map py_lower_char s"

section \<open>Data structures\<close>

typedecl py_any

record Product =
  name :: string
  category :: string
  quantity :: int
  quality_grade :: string
  origin :: string
  base_market_price :: int
  attributes :: "string \<rightharpoonup> py_any"

datatype role = Buyer | Seller

text \<open>
  A message is an f-string of the source; the model keeps which one it is and the number
  interpolated into it, or, for a strategy that is not part of the repository, any text.
\<close>

datatype message =
    Opening_msg int
  | Agreed_msg int
  | Compelling_msg int
  | Aligned_msg int
  | Fair_enough_msg int
  | Finalize_msg int
  | Move_to_msg int
  | Mock_asking_msg int
  | Mock_deal_msg int
  | Mock_final_offer_msg int
  | Mock_come_down_msg int
  | Seller_opening_msg string int
  | Seller_agreed_msg int string
  | Seller_reasonable_msg
  | Seller_improve_msg int string
  | Text string

record NegotiationContext =
  product :: Product
  your_budget :: int
  current_round :: int
  seller_offers :: "int list"
  your_offers :: "int list"
  messages :: "(role \<times> message) list"

datatype DealStatus = ONGOING | ACCEPTED | REJECTED | TIMEOUT

section \<open>The buyer: YourBuyerAgent\<close>

definition quality_multiplier :: "Product \<Rightarrow> pyfloat" where
  "quality_multiplier p = (let q = lower (strip (quality_grade p)) in
     if q = ''export'' then fl (115 / 100)
     else if q = ''a'' then fl (105 / 100)
     else if q = ''b'' then fl (95 / 100)
     else fl 1)"

definition calculate_fair_price :: "Product \<Rightarrow> py_error + int" where
  "calculate_fair_price p = (let
       base = base_market_price p;
       quality_factor = quality_multiplier p;
       origin_factor = (if lower (origin p) \<in> {''colombia'', ''ethiopia'', ''yirgacheffe''}
                        then fl (105 / 100) else fl 1);
       volume_factor = (if 200 \<le> quantity p then fl (98 / 100) else fl 1)
     in pybind (imul base quality_factor) (\<lambda>x.
        py_round (fmul (fmul x origin_factor) volume_factor)))"

definition target_zone :: "Product \<Rightarrow> py_error + int \<times> int" where
  "target_zone p =
     pybind (calculate_fair_price p) (\<lambda>fair.
     pybind (pybind (imul fair (fl (88 / 100))) py_int) (\<lambda>low.
     pybind (pybind (imul fair (fl (97 / 100))) py_int) (\<lambda>high.
     Inr (low, high))))"

definition generate_opening_offer :: "NegotiationContext \<Rightarrow> py_error + int \<times> message" where
  "generate_opening_offer context =
     pybind (calculate_fair_price (product context)) (\<lambda>fair.
     pybind (pybind (imul fair (fl (78 / 100))) py_int) (\<lambda>opening_price.
     let opening_price = min opening_price (your_budget context)
     in Inr (opening_price, Opening_msg opening_price)))"

definition respond_to_seller_offer ::
  "NegotiationContext \<Rightarrow> int \<Rightarrow> message \<Rightarrow> py_error + DealStatus \<times> int \<times> message" where
  "respond_to_seller_offer context seller_price seller_message = (let
       product = product context;
       budget = your_budget context
     in
     pybind (calculate_fair_price product) (\<lambda>fair.
     pybind (target_zone product) (\<lambda>(low, high).
     if seller_price \<le> budget \<and> low \<le> seller_price \<and> seller_price \<le> high
     then Inr (ACCEPTED, seller_price, Agreed_msg seller_price)
     else
     pybind (if seller_price \<le> budget
             then pybind (pybind (imul fair (fl (85 / 100))) py_int) (\<lambda>b. Inr (seller_price \<le> b))
             else Inr False) (\<lambda>snap.
     if snap then Inr (ACCEPTED, seller_price, Compelling_msg seller_price)
     else
     pybind (if your_offers context \<noteq> [] then Inr (last (your_offers context))
             else pybind (imul fair (fl (78 / 100))) py_int) (\<lambda>last_offer.
     let rounds_left = 10 - current_round context;
         step = (if 6 \<le> rounds_left then fl (7 / 100)
                 else if 3 \<le> rounds_left then fl (45 / 1000)
                 else fl (3 / 100));
         target_point = min seller_price budget
     in
     pybind (int_truediv (last_offer + target_point) 2) (\<lambda>midpoint.
     pybind (imul last_offer (fadd (exact 1) step)) (\<lambda>stepped.
     pybind (py_int (py_min2 (exact budget)
                      (py_max3 (exact last_offer) stepped (fmul midpoint (fl (97 / 100)))))) (\<lambda>proposed.
     pybind (if 9 \<le> current_round context
             then pybind (pybind (imul fair (fl (90 / 100))) py_int) (\<lambda>f90.
                    Inr (min budget (max proposed f90)))
             else pybind (pybind (imul fair (fl (92 / 100))) py_int) (\<lambda>f92.
                    Inr (min proposed (max f92 last_offer)))) (\<lambda>proposed.
     pybind (if seller_price \<le> budget
             then pybind (pybind (imul fair (fl (15 / 1000))) py_int) (\<lambda>tol.
                    Inr (\<bar>seller_price - proposed\<bar> \<le> tol))
             else Inr False) (\<lambda>aligned.
     if aligned then Inr (ACCEPTED, seller_price, Aligned_msg seller_price)
     else if seller_price \<le> min budget proposed
     then Inr (ACCEPTED, seller_price, Fair_enough_msg seller_price)
     else let counter_offer = min proposed budget in
       if 9 \<le> current_round context
       then Inr (ONGOING, counter_offer, Finalize_msg counter_offer)
       else Inr (ONGOING, counter_offer, Move_to_msg counter_offer)))))))))))"

text \<open>
  What a result says when it is returned: \<open>returns m P\<close> holds when \<open>m\<close> raises, and when
  \<open>m\<close> returns a value that satisfies \<open>P\<close>.
\<close>

definition returns :: "py_error + 'a \<Rightarrow> ('a \<Rightarrow> bool) \<Rightarrow> bool" where
  "returns m P = (case m of Inl e \<Rightarrow> True | Inr v \<Rightarrow> P v)"

section \<open>The testing framework: MockSellerAgent and run_negotiation_test\<close>

text \<open>
  A buyer strategy (a subclass of \<open>BaseBuyerAgent\<close>) is modelled by its two methods, each
  a function that returns a value or raises.
\<close>

record BaseBuyerAgent =
  opening_method :: "NegotiationContext \<Rightarrow> py_error + int \<times> message"
  respond_method :: "NegotiationContext \<Rightarrow> int \<Rightarrow> message \<Rightarrow> py_error + DealStatus \<times> int \<times> message"

definition YourBuyerAgent :: BaseBuyerAgent where
  "YourBuyerAgent = \<lparr>opening_method = generate_opening_offer,
     respond_method = respond_to_seller_offer\<rparr>"

record MockSellerAgent =
  min_price :: int
  mock_personality :: string

definition get_opening_price :: "MockSellerAgent \<Rightarrow> Product \<Rightarrow> py_error + int \<times> message" where
  "get_opening_price self p =
     pybind (pybind (imul (base_market_price p) (fl (15 / 10))) py_int) (\<lambda>price.
     Inr (price, Mock_asking_msg price))"

definition respond_to_buyer ::
  "MockSellerAgent \<Rightarrow> int \<Rightarrow> int \<Rightarrow> py_error + int \<times> message \<times> bool" where
  "respond_to_buyer self buyer_offer round_num =
     pybind (imul (min_price self) (fl (11 / 10))) (\<lambda>good.
     if py_le good (exact buyer_offer)
     then Inr (buyer_offer, Mock_deal_msg buyer_offer, True)
     else if 8 \<le> round_num
     then pybind (pybind (imul buyer_offer (fl (105 / 100))) py_int) (\<lambda>c.
            let counter = max (min_price self) c
            in Inr (counter, Mock_final_offer_msg counter, False))
     else pybind (pybind (imul buyer_offer (fl (115 / 100))) py_int) (\<lambda>c.
            let counter = max (min_price self) c
            in Inr (counter, Mock_come_down_msg counter, False)))"

text \<open>The local variables of \<open>run_negotiation_test\<close> that the loop reads and writes.\<close>

record loop_state =
  loop_context :: NegotiationContext
  seller_price :: int
  seller_msg :: message
  deal_made :: bool
  final_price :: "int option"

text \<open>
  The body of \<open>for round_num in range(10)\<close>, on the round numbers still to run; a
  \<open>break\<close> returns the state without running the remaining rounds.
\<close>

fun run_rounds ::
  "BaseBuyerAgent \<Rightarrow> MockSellerAgent \<Rightarrow> int list \<Rightarrow> loop_state \<Rightarrow> py_error + loop_state" where
  "run_rounds buyer_agent seller [] st = Inr st"
| "run_rounds buyer_agent seller (round_num # rest) st = (let
       ctx = (loop_context st)\<lparr>current_round := round_num + 1\<rparr>
     in
     pybind (if round_num = 0
             then pybind (opening_method buyer_agent ctx) (\<lambda>(buyer_offer, buyer_msg).
                    Inr (ONGOING, buyer_offer, buyer_msg))
             else respond_method buyer_agent ctx (seller_price st) (seller_msg st))
       (\<lambda>(status, buyer_offer, buyer_msg). let
          ctx = ctx\<lparr>your_offers := your_offers ctx @ [buyer_offer],
                    messages := messages ctx @ [(Buyer, buyer_msg)]\<rparr>
        in
        if status = ACCEPTED
        then Inr (st\<lparr>loop_context := ctx, deal_made := True, final_price := Some (seller_price st)\<rparr>)
        else
        pybind (respond_to_buyer seller buyer_offer round_num) (\<lambda>(price, msg, seller_accepts).
        if seller_accepts
        then Inr \<lparr>loop_context = ctx\<lparr>messages := messages ctx @ [(Seller, msg)]\<rparr>,
                  seller_price = price, seller_msg = msg,
                  deal_made = True, final_price = Some buyer_offer\<rparr>
        else run_rounds buyer_agent seller rest
               \<lparr>loop_context = ctx\<lparr>seller_offers := seller_offers ctx @ [price],
                                 messages := messages ctx @ [(Seller, msg)]\<rparr>,
                seller_price = price, seller_msg = msg,
                deal_made = deal_made st, final_price = final_price st\<rparr>)))"

record negotiation_result =
  result_deal_made :: bool
  result_final_price :: "int option"
  rounds :: int
  savings :: int
  savings_pct :: pyfloat
  below_market_pct :: pyfloat
  conversation :: "(role \<times> message) list"

definition run_negotiation_test ::
  "BaseBuyerAgent \<Rightarrow> Product \<Rightarrow> int \<Rightarrow> int \<Rightarrow> py_error + negotiation_result" where
  "run_negotiation_test buyer_agent p buyer_budget seller_min = (let
       seller = \<lparr>min_price = seller_min, mock_personality = ''standard''\<rparr>;
       ctx = \<lparr>product = p, your_budget = buyer_budget, current_round = 0,
              seller_offers = [], your_offers = [], messages = []\<rparr>
     in
     pybind (get_opening_price seller p) (\<lambda>(price, msg). let
       ctx = ctx\<lparr>seller_offers := seller_offers ctx @ [price],
                 messages := messages ctx @ [(Seller, msg)]\<rparr>
     in
     pybind (run_rounds buyer_agent seller [0..9]
               \<lparr>loop_context = ctx, seller_price = price, seller_msg = msg,
                deal_made = False, final_price = None\<rparr>) (\<lambda>st.
     case (deal_made st, final_price st) of
       (True, Some fp) \<Rightarrow>
         pybind (int_truediv (buyer_budget - fp) buyer_budget) (\<lambda>s.
         pybind (int_truediv (base_market_price p - fp) (base_market_price p)) (\<lambda>b.
         Inr \<lparr>result_deal_made = True, result_final_price = Some fp,
              rounds = current_round (loop_context st),
              savings = buyer_budget - fp,
              savings_pct = fmul s (exact 100),
              below_market_pct = fmul b (exact 100),
              conversation = messages (loop_context st)\<rparr>))
     | (True, None) \<Rightarrow> Inl (Raised ''TypeError'')
     | (False, fp) \<Rightarrow>
         Inr \<lparr>result_deal_made = False, result_final_price = fp,
              rounds = current_round (loop_context st),
              savings = 0, savings_pct = exact 0, below_market_pct = exact 0,
              conversation = messages (loop_context st)\<rparr>)))"

section \<open>The seller: YourSellerAgent\<close>

text \<open>
  \<open>BaseSellerAgent\<close> spells its initialiser \<open>_init_\<close>, so creating a seller does not run
  it and the attribute \<open>personality\<close> exists only once a caller has assigned it. The model
  keeps the attribute as an option: reading it while unset raises AttributeError.
\<close>

record Personality =
  personality_type :: string
  traits :: "string list"
  negotiation_style :: string
  catchphrases :: "string list"

record YourSellerAgent =
  personality :: "Personality option"

definition seller_define_personality :: Personality where
  "seller_define_personality = \<lparr>personality_type = ''diplomatic'',
     traits = [''collaborative'', ''transparent'', ''calm'', ''principled'', ''win-win''],
     negotiation_style = ''Opens high with rationale, reciprocates genuine moves, seeks stable partnerships.'',
     catchphrases = [''Let's align on value and quality.'',
       ''I prioritize repeat business over one-off wins.'',
       ''We can bridge this thoughtfully.'']\<rparr>"

definition catchphrase :: "YourSellerAgent \<Rightarrow> nat \<Rightarrow> py_error + string" where
  "catchphrase self i = (case personality self of
       None \<Rightarrow> Inl AttributeError
     | Some p \<Rightarrow> if i < length (catchphrases p) then Inr (catchphrases p ! i) else Inl IndexError)"

definition seller_quality_multiplier :: "Product \<Rightarrow> pyfloat" where
  "seller_quality_multiplier p = (let q = lower (strip (quality_grade p)) in
     if q = ''export'' then fl (115 / 100)
     else if q = ''a'' then fl (106 / 100)
     else if q = ''b'' then fl (94 / 100)
     else fl 1)"

definition fair_price :: "Product \<Rightarrow> py_error + int" where
  "fair_price p = (let
       base = base_market_price p;
       qf = seller_quality_multiplier p;
       origin_factor = (if lower (origin p) \<in> {''colombia'', ''ethiopia'', ''yirgacheffe''}
                        then fl (105 / 100) else fl 1);
       logistics = fl (101 / 100)
     in pybind (imul base qf) (\<lambda>x.
        py_round (fmul (fmul x origin_factor) logistics)))"

definition seller_zone :: "Product \<Rightarrow> py_error + int \<times> int" where
  "seller_zone p =
     pybind (fair_price p) (\<lambda>fair.
     pybind (pybind (imul fair (fl 1)) py_int) (\<lambda>low.
     pybind (pybind (imul fair (fl (110 / 100))) py_int) (\<lambda>high.
     Inr (low, high))))"

definition generate_opening_price :: "YourSellerAgent \<Rightarrow> Product \<Rightarrow> py_error + int \<times> message" where
  "generate_opening_price self p =
     pybind (fair_price p) (\<lambda>fair.
     pybind (pybind (imul fair (fl (128 / 100))) py_int) (\<lambda>opening.
     pybind (catchphrase self 0) (\<lambda>phrase.
     Inr (opening, Seller_opening_msg phrase opening))))"

definition respond_to_buyer_offer ::
  "YourSellerAgent \<Rightarrow> Product \<Rightarrow> int \<Rightarrow> int \<Rightarrow> py_error + string \<times> int \<times> message" where
  "respond_to_buyer_offer self p buyer_offer round_num =
     pybind (fair_price p) (\<lambda>fair.
     pybind (seller_zone p) (\<lambda>(low, high).
     if low \<le> buyer_offer \<and> buyer_offer \<le> high
     then pybind (catchphrase self 1) (\<lambda>phrase.
            Inr (''accepted'', buyer_offer, Seller_agreed_msg buyer_offer phrase))
     else
     pybind (pybind (imul fair (fl (98 / 100))) py_int) (\<lambda>f98.
     if f98 \<le> buyer_offer
     then Inr (''accepted'', buyer_offer, Seller_reasonable_msg)
     else let
         rounds_left = 10 - (round_num + 1);
         step_down = (if 6 \<le> rounds_left then fl (7 / 100)
                      else if 3 \<le> rounds_left then fl (5 / 100)
                      else fl (3 / 100))
     in
     pybind (if round_num = 0
             then pybind (imul fair (fl (128 / 100))) py_int
             else pybind (imul (min round_num 4) (fl (6 / 100))) (\<lambda>decay.
                  pybind (imul fair (fsub (fl (128 / 100)) decay)) py_int)) (\<lambda>ask.
     pybind (pybind (imul fair (fl (90 / 100))) py_int) (\<lambda>f90.
     pybind (int_truediv (ask + max buyer_offer f90) 2) (\<lambda>midpoint.
     pybind (imul fair (fadd (fl 1) step_down)) (\<lambda>above_fair.
     pybind (py_int (py_max2 midpoint above_fair)) (\<lambda>counter.
     let counter = (if 8 \<le> round_num then max counter fair else counter) in
     pybind (catchphrase self 2) (\<lambda>phrase.
     Inr (''ongoing'', counter, Seller_improve_msg counter phrase))))))))))"

section \<open>Example inputs\<close>

text \<open>The first product of \<open>test_your_agent\<close>, and contexts over it.\<close>

definition mango :: Product where
  "mango = \<lparr>name = ''Alphonso Mangoes'', category = ''Mangoes'', quantity = 100,
     quality_grade = ''A'', origin = ''Ratnagiri'', base_market_price = 180000,
     attributes = Map.empty\<rparr>"

definition mango_context :: "int \<Rightarrow> int \<Rightarrow> int list \<Rightarrow> NegotiationContext" where
  "mango_context budget round_no offers = \<lparr>product = mango, your_budget = budget,
     current_round = round_no, seller_offers = [270000], your_offers = offers, messages = []\<rparr>"

text \<open>A product whose grade is written in lower case, and a product with a small price.\<close>

definition lowercase_grade_product :: Product where
  "lowercase_grade_product = \<lparr>name = ''Beans'', category = ''Coffee'', quantity = 1,
     quality_grade = ''a'', origin = ''Kenya'', base_market_price = 100,
     attributes = Map.empty\<rparr>"

definition small_product :: Product where
  "small_product = \<lparr>name = ''Sample'', category = ''Coffee'', quantity = 1,
     quality_grade = ''C'', origin = ''Kenya'', base_market_price = 9,
     attributes = Map.empty\<rparr>"

definition small_context :: NegotiationContext where
  "small_context = \<lparr>product = small_product, your_budget = 20,
     current_round = 2, seller_offers = [13], your_offers = [7], messages = []\<rparr>"

section \<open>The fair price as the specification words it\<close>

text \<open>
  The formula of the specification, over a table of quality factors: the product of the
  base price and the three factors, rounded to the nearest integer.
\<close>

definition spec_fair_price :: "(string \<Rightarrow> pyfloat) \<Rightarrow> Product \<Rightarrow> py_error + int" where
  "spec_fair_price quality_factor p =
     pybind (imul (base_market_price p) (quality_factor (quality_grade p))) (\<lambda>x.
     py_round (fmul (fmul x
       (if lower (origin p) \<in> {''colombia'', ''ethiopia'', ''yirgacheffe''}
        then fl (105 / 100) else fl 1))
       (if 200 \<le> quantity p then fl (98 / 100) else fl 1)))"

text \<open>The table as stated: the grades \<open>Export\<close>, \<open>A\<close> and \<open>B\<close>, and 1.0 for any other grade.\<close>

definition stated_quality_factor :: "string \<Rightarrow> pyfloat" where
  "stated_quality_factor grade =
     (if grade = ''Export'' then fl (115 / 100)
      else if grade = ''A'' then fl (105 / 100)
      else if grade = ''B'' then fl (95 / 100)
      else fl 1)"

text \<open>The table read on the grade without surrounding white space and in lower case.\<close>

definition normalised_quality_factor :: "string \<Rightarrow> pyfloat" where
  "normalised_quality_factor grade =
     (if lower (strip grade) = ''export'' then fl (115 / 100)
      else if lower (strip grade) = ''a'' then fl (105 / 100)
      else if lower (strip grade) = ''b'' then fl (95 / 100)
      else fl 1)"

section \<open>Observing the negotiation loop\<close>

text \<open>The number of buyer turns recorded in a conversation.\<close>

definition buyer_turns :: "(role \<times> message) list \<Rightarrow> nat" where
  "buyer_turns ms = length (filter (\<lambda>m. fst m = Buyer) ms)"

text \<open>A buyer that never moves and never accepts.\<close>

definition stubborn_agent :: BaseBuyerAgent where
  "stubborn_agent = \<lparr>opening_method = (\<lambda>ctx. Inr (1, Text ''no'')),
     respond_method = (\<lambda>ctx price msg. Inr (ONGOING, 1, Text ''no''))\<rparr>"

text \<open>
  A buyer that asserts the round number it is called with: \<open>k\<close> for the opening offer,
  \<open>k + 1\<close> to \<open>k + 9\<close> for the responses; it raises when the assertion fails and behaves
  as the given buyer otherwise.
\<close>

definition expect_rounds :: "int \<Rightarrow> BaseBuyerAgent \<Rightarrow> BaseBuyerAgent" where
  "expect_rounds k agent = \<lparr>
     opening_method = (\<lambda>ctx.
       if current_round ctx = k then opening_method agent ctx
       else Inl (Raised ''AssertionError'')),
     respond_method = (\<lambda>ctx price msg.
       if k + 1 \<le> current_round ctx \<and> current_round ctx \<le> k + 9
       then respond_method agent ctx price msg
       else Inl (Raised ''AssertionError''))\<rparr>"

text \<open>
  What the buyer returns in round \<open>round_num\<close>, entered with the loop variables \<open>st\<close>:
  the opening offer in round 0 (with status ONGOING), a response to the latest seller
  price and message in every later round.
\<close>

definition buyer_call ::
  "BaseBuyerAgent \<Rightarrow> loop_state \<Rightarrow> int \<Rightarrow> py_error + DealStatus \<times> int \<times> message" where
  "buyer_call agent st round_num = (let
       ctx = (loop_context st)\<lparr>current_round := round_num + 1\<rparr>
     in if round_num = 0
        then pybind (opening_method agent ctx) (\<lambda>(offer, msg). Inr (ONGOING, offer, msg))
        else respond_method agent ctx (seller_price st) (seller_msg st))"

text \<open>
  An acceptance occurs in a round when the buyer returns ACCEPTED, or when the seller
  accepts the offer the buyer returned.
\<close>

definition acceptance_in_round ::
  "BaseBuyerAgent \<Rightarrow> MockSellerAgent \<Rightarrow> loop_state \<Rightarrow> int \<Rightarrow> bool" where
  "acceptance_in_round agent seller st round_num =
     (case buyer_call agent st round_num of
        Inl e \<Rightarrow> False
      | Inr (status, offer, msg) \<Rightarrow>
          status = ACCEPTED \<or>
          (case respond_to_buyer seller offer round_num of
             Inl e \<Rightarrow> False
           | Inr (price, reply, accepts) \<Rightarrow> accepts))"

text \<open>The loop variables when the loop starts, after the seller's opening price.\<close>

definition opening_state :: "Product \<Rightarrow> int \<Rightarrow> int \<Rightarrow> message \<Rightarrow> loop_state" where
  "opening_state p budget price msg =
     \<lparr>loop_context = \<lparr>product = p, your_budget = budget, current_round = 0,
        seller_offers = [price], your_offers = [], messages = [(Seller, msg)]\<rparr>,
      seller_price = price, seller_msg = msg, deal_made = False, final_price = None\<rparr>"

text \<open>
  A buyer that asserts the round number of every call: 1 and no earlier offer for the
  opening offer, one more than the number of its earlier offers for a response.
\<close>

definition expect_turn_number :: "BaseBuyerAgent \<Rightarrow> BaseBuyerAgent" where
  "expect_turn_number agent = \<lparr>
     opening_method = (\<lambda>ctx.
       if your_offers ctx = [] \<and> current_round ctx = 1 then opening_method agent ctx
       else Inl (Raised ''AssertionError'')),
     respond_method = (\<lambda>ctx price msg.
       if your_offers ctx \<noteq> [] \<and> current_round ctx = int (length (your_offers ctx)) + 1
       then respond_method agent ctx price msg
       else Inl (Raised ''AssertionError''))\<rparr>"

section \<open>The concession schedule as the specification words it\<close>



definition spec_proposal :: "int \<Rightarrow> int \<Rightarrow> int \<Rightarrow> int \<Rightarrow> int \<Rightarrow> py_error + int" where
  "spec_proposal fair last_offer candidate budget round_no =
     (if 9 \<le> round_no
      then pybind (pybind (imul fair (fl (90 / 100))) py_int) (\<lambda>f90.
             Inr (min budget (max candidate f90)))
      else pybind (pybind (imul fair (fl (92 / 100))) py_int) (\<lambda>f92.
             Inr (min candidate (max f92 last_offer))))"

section \<open>The seller's step-down schedule\<close>

text \<open>
  The local \<open>step_down\<close> of \<open>respond_to_buyer_offer\<close> as a function of the round number,
  and a seller whose \<open>personality\<close> has been assigned from \<open>define_personality\<close>.
\<close>

definition step_down :: "int \<Rightarrow> pyfloat" where
  "step_down round_num = (let rounds_left = 10 - (round_num + 1) in
     if 6 \<le> rounds_left then fl (7 / 100)
     else if 3 \<le> rounds_left then fl (5 / 100)
     else fl (3 / 100))"

definition diplomatic_seller :: YourSellerAgent where
  "diplomatic_seller = \<lparr>personality = Some seller_define_personality\<rparr>"

section \<open>Evaluating numbers and strings\<close>

lemma bitlen_numeral_simps [simp]:
  "bitlen 1 = 1"
  "bitlen (numeral Num.One) = 1"
  "bitlen (numeral (Num.Bit0 n)) = bitlen (numeral n) + 1"
  "bitlen (numeral (Num.Bit1 n)) = bitlen (numeral n) + 1"
  by (subst compute_bitlen; simp)+

lemma floor_rat_numeral_simps [simp]:
  "\<lfloor>(numeral a :: rat) / numeral b\<rfloor> = numeral a div numeral b"
  "\<lfloor>- ((numeral a :: rat) / numeral b)\<rfloor> = - numeral a div numeral b"
  "\<lfloor>(1 :: rat) / numeral b\<rfloor> = 1 div numeral b"
  "\<lfloor>- ((1 :: rat) / numeral b)\<rfloor> = - 1 div numeral b"
     apply (metis floor_divide_of_int_eq of_int_numeral)
    apply (metis floor_divide_of_int_eq of_int_numeral of_int_minus minus_divide_left)
   apply (metis floor_divide_of_int_eq of_int_numeral of_int_1)
  apply (metis floor_divide_of_int_eq of_int_numeral of_int_minus minus_divide_left of_int_1)
  done

lemma ceiling_rat_numeral_simps [simp]:
  "\<lceil>(numeral a :: rat) / numeral b\<rceil> = - (- numeral a div numeral b)"
  "\<lceil>- ((numeral a :: rat) / numeral b)\<rceil> = - (numeral a div numeral b)"
  "\<lceil>(1 :: rat) / numeral b\<rceil> = - (- 1 div numeral b)"
  "\<lceil>- ((1 :: rat) / numeral b)\<rceil> = - (1 div numeral b)"
  by (simp_all add: ceiling_def)

lemmas fl_eval = fl_def ilog2_def pow2_def round_half_even_def Let_def

lemmas num_eval = fl_eval exact_def float_of_int_def fmul_def fadd_def fsub_def fneg_def imul_def
  int_truediv_def trunc_def py_int_def py_round_def py_lt_def py_le_def py_max2_def py_min2_def
  py_max3_def pybind_def

lemmas str_eval = lower_def strip_def py_isspace_def py_lower_char_def char_of_def bit_0 bit_Suc

section \<open>Reasoning about results\<close>

lemma pybind_Inr_iff: "pybind m f = Inr y \<longleftrightarrow> (\<exists>x. m = Inr x \<and> f x = Inr y)"
  by (cases m) (simp_all add: pybind_def)

lemma pybind_simps [simp]: "pybind (Inr v) f = f v" "pybind (Inl e) f = Inl e"
  by (simp_all add: pybind_def)

lemma returns_bindI: "(\<And>x. m = Inr x \<Longrightarrow> returns (f x) P) \<Longrightarrow> returns (pybind m f) P"
  by (cases m) (simp_all add: pybind_def returns_def)

lemma returns_ifI:
  "(c \<Longrightarrow> returns a P) \<Longrightarrow> (\<not> c \<Longrightarrow> returns b P) \<Longrightarrow> returns (if c then a else b) P"
  by simp

lemma returns_InrI: "P v \<Longrightarrow> returns (Inr v) P"
  by (simp add: returns_def)

lemma returns_prodI:
  "(\<And>a b. x = (a, b) \<Longrightarrow> returns (f a b) P) \<Longrightarrow> returns (case x of (a, b) \<Rightarrow> f a b) P"
  by (cases x) simp

lemma returns_weaken: "returns m P \<Longrightarrow> (\<And>v. P v \<Longrightarrow> Q v) \<Longrightarrow> returns m Q"
  by (cases m) (simp_all add: returns_def)

lemma returnsD: "returns m P \<Longrightarrow> m = Inr v \<Longrightarrow> P v"
  by (simp add: returns_def)

lemmas returns_intros = returns_bindI returns_ifI returns_prodI returns_InrI

section \<open>The buyer's prices\<close>

lemma opening_le_budget:
  "returns (generate_opening_offer ctx) (\<lambda>(offer, msg). offer \<le> your_budget ctx)"
  unfolding generate_opening_offer_def Let_def
  by (intro returns_intros) simp_all

lemma respond_le_budget:
  "returns (respond_to_seller_offer ctx sp sm) (\<lambda>(status, price, msg). price \<le> your_budget ctx)"
  unfolding respond_to_seller_offer_def Let_def
  by (intro returns_intros) (simp_all split: if_splits)

lemma respond_accepted_price:
  "returns (respond_to_seller_offer ctx sp sm) (\<lambda>(status, price, msg). status = ACCEPTED \<longrightarrow> price = sp)"
  unfolding respond_to_seller_offer_def Let_def
  by (intro returns_intros) simp_all

lemma fair_mango: "calculate_fair_price mango = Inr 189000"
  by (simp add: calculate_fair_price_def quality_multiplier_def mango_def str_eval num_eval)

lemma zone_mango: "target_zone mango = Inr (166320, 183330)"
  by (simp add: target_zone_def fair_mango num_eval)

lemma opening_mango:
  "generate_opening_offer (mango_context 200000 1 []) = Inr (147420, Opening_msg 147420)"
  by (simp add: generate_opening_offer_def mango_context_def fair_mango num_eval)

lemma respond_mango_counter:
  "respond_to_seller_offer (mango_context 200000 2 [147420]) 270000 (Mock_come_down_msg 270000)
     = Inr (ONGOING, 168498, Move_to_msg 168498)"
  by (simp add: respond_to_seller_offer_def mango_context_def fair_mango zone_mango num_eval)

lemma respond_mango_zone:
  "respond_to_seller_offer (mango_context 200000 2 [147420]) 170000 (Mock_come_down_msg 170000)
     = Inr (ACCEPTED, 170000, Agreed_msg 170000)"
  by (simp add: respond_to_seller_offer_def mango_context_def fair_mango zone_mango num_eval)

lemma respond_mango_snap:
  "respond_to_seller_offer (mango_context 200000 2 [147420]) 160000 (Mock_come_down_msg 160000)
     = Inr (ACCEPTED, 160000, Compelling_msg 160000)"
  by (simp add: respond_to_seller_offer_def mango_context_def fair_mango zone_mango num_eval)

text \<open>
  C1 (budget invariant). Whenever \<open>generate_opening_offer\<close> returns an offer, and whenever
  \<open>respond_to_seller_offer\<close> returns a price with any status (the four accepting
  branches and the ONGOING counter), that integer is at most the budget of the context.
\<close>

theorem budget_invariant:
  "(generate_opening_offer ctx = Inr (offer, msg) \<longrightarrow> offer \<le> your_budget ctx) \<and>
   (respond_to_seller_offer ctx sp sm = Inr (status, price, msg') \<longrightarrow> price \<le> your_budget ctx)"
  using returnsD [OF opening_le_budget, of ctx "(offer, msg)"]
    returnsD [OF respond_le_budget, of ctx sp sm "(status, price, msg')"]
  by simp

theorem budget_invariant_witness:
  "generate_opening_offer (mango_context 200000 1 []) = Inr (147420, Opening_msg 147420) \<and>
   147420 \<le> your_budget (mango_context 200000 1 []) \<and>
   respond_to_seller_offer (mango_context 200000 2 [147420]) 270000 (Mock_come_down_msg 270000)
     = Inr (ONGOING, 168498, Move_to_msg 168498) \<and>
   168498 \<le> your_budget (mango_context 200000 2 [147420])"
proof -
  note a = opening_mango
  note b = respond_mango_counter
  from budget_invariant [where ctx = "mango_context 200000 1 []" and offer = 147420
      and msg = "Opening_msg 147420"] a
  have "147420 \<le> your_budget (mango_context 200000 1 [])" by blast
  moreover
  from budget_invariant [where ctx = "mango_context 200000 2 [147420]" and sp = 270000
      and sm = "Mock_come_down_msg 270000" and status = ONGOING and price = 168498
      and msg' = "Move_to_msg 168498"] b
  have "168498 \<le> your_budget (mango_context 200000 2 [147420])" by blast
  ultimately show ?thesis using a b by simp
qed

text \<open>
  C10 (acceptance price identity). Whenever \<open>respond_to_seller_offer\<close> returns the status
  ACCEPTED, the integer returned with it is the seller's price.
\<close>

theorem accepted_price_is_seller_price:
  "respond_to_seller_offer ctx sp sm = Inr (ACCEPTED, price, msg) \<Longrightarrow> price = sp"
  using returnsD [OF respond_accepted_price, of ctx sp sm "(ACCEPTED, price, msg)"]
  by simp

theorem accepted_price_is_seller_price_witness:
  "respond_to_seller_offer (mango_context 200000 2 [147420]) 170000 (Mock_come_down_msg 170000)
     = Inr (ACCEPTED, 170000, Agreed_msg 170000) \<and> (170000 :: int) = 170000"
  using accepted_price_is_seller_price [OF respond_mango_zone] respond_mango_zone
  by simp

section \<open>The fair price and the opening offer\<close>

lemma fair_lowercase_grade: "calculate_fair_price lowercase_grade_product = Inr 105"
  by (simp add: calculate_fair_price_def quality_multiplier_def lowercase_grade_product_def
      str_eval num_eval)

lemma stated_fair_lowercase_grade:
  "spec_fair_price stated_quality_factor lowercase_grade_product = Inr 100"
  by (simp add: spec_fair_price_def stated_quality_factor_def lowercase_grade_product_def
      str_eval num_eval)

lemma quality_multiplier_normalised:
  "quality_multiplier p = normalised_quality_factor (quality_grade p)"
  by (simp add: quality_multiplier_def normalised_quality_factor_def Let_def)

lemma normalised_is_stated:
  "lower (strip g) \<notin> {''export'', ''a'', ''b''} \<or> g \<in> {''Export'', ''A'', ''B''} \<Longrightarrow>
   normalised_quality_factor g = stated_quality_factor g"
  by (auto simp: normalised_quality_factor_def stated_quality_factor_def str_eval)

lemma fair_price_normalised:
  "calculate_fair_price p = spec_fair_price normalised_quality_factor p"
  by (simp add: calculate_fair_price_def spec_fair_price_def quality_multiplier_normalised Let_def)

text \<open>
  C3 as stated fails: the grade \<open>a\<close> is none of \<open>Export\<close>, \<open>A\<close>, \<open>B\<close>, so the stated
  table gives the factor 1.0 and the price 100, but \<open>calculate_fair_price\<close> returns 105.
\<close>

theorem fair_price_stated_table_counterexample:
  "calculate_fair_price lowercase_grade_product = Inr 105 \<and>
   spec_fair_price stated_quality_factor lowercase_grade_product = Inr 100 \<and>
   calculate_fair_price lowercase_grade_product
     \<noteq> spec_fair_price stated_quality_factor lowercase_grade_product"
  by (simp add: fair_lowercase_grade stated_fair_lowercase_grade)

text \<open>
  C3 (fair price formula), amended. \<open>calculate_fair_price\<close> is the rounded product of the
  base price, the quality factor, the origin factor and the volume factor, where the
  quality factor is read on the grade stripped of white space and in lower case (1.15
  for \<open>export\<close>, 1.05 for \<open>a\<close>, 0.95 for \<open>b\<close>, 1.0 otherwise, never an error); it agrees
  with the stated table for the grades \<open>Export\<close>, \<open>A\<close>, \<open>B\<close> and for every grade that
  does not normalise to one of the three; and the price of the example product is 189000.
\<close>

theorem fair_price_formula:
  "calculate_fair_price p = spec_fair_price normalised_quality_factor p \<and>
   (lower (strip (quality_grade p)) \<notin> {''export'', ''a'', ''b''}
      \<or> quality_grade p \<in> {''Export'', ''A'', ''B''} \<longrightarrow>
    calculate_fair_price p = spec_fair_price stated_quality_factor p) \<and>
   calculate_fair_price mango = Inr 189000"
proof -
  have "calculate_fair_price p = spec_fair_price stated_quality_factor p"
    if "lower (strip (quality_grade p)) \<notin> {''export'', ''a'', ''b''}
      \<or> quality_grade p \<in> {''Export'', ''A'', ''B''}"
    using normalised_is_stated [OF that]
    by (simp add: fair_price_normalised spec_fair_price_def)
  then show ?thesis
    using fair_price_normalised fair_mango by blast
qed

theorem fair_price_formula_witness:
  "quality_grade mango \<in> {''Export'', ''A'', ''B''} \<and>
   spec_fair_price stated_quality_factor mango = Inr 189000"
proof -
  have g: "quality_grade mango \<in> {''Export'', ''A'', ''B''}"
    by (simp add: mango_def)
  with fair_price_formula [of mango]
  have "calculate_fair_price mango = spec_fair_price stated_quality_factor mango"
    and "calculate_fair_price mango = Inr 189000"
    by blast+
  with g show ?thesis by simp
qed

lemma opening_formula:
  "calculate_fair_price (product ctx) = Inr fair \<Longrightarrow>
   pybind (imul fair (fl (78 / 100))) py_int = Inr x \<Longrightarrow>
   generate_opening_offer ctx = Inr (min x (your_budget ctx), Opening_msg (min x (your_budget ctx)))"
  by (simp add: generate_opening_offer_def Let_def)

lemma opening_mango_unclamped:
  "product ctx = mango \<Longrightarrow> 147420 \<le> your_budget ctx \<Longrightarrow>
   generate_opening_offer ctx = Inr (147420, Opening_msg 147420)"
  by (simp add: generate_opening_offer_def fair_mango num_eval)

lemma opening_mango_clamped:
  "product ctx = mango \<Longrightarrow> your_budget ctx = 144000 \<Longrightarrow>
   generate_opening_offer ctx = Inr (144000, Opening_msg 144000)"
  by (simp add: generate_opening_offer_def fair_mango num_eval)

text \<open>
  C4 (opening offer). When the fair price is \<open>fair\<close> and \<open>int(fair * 0.78)\<close> is \<open>x\<close>,
  \<open>generate_opening_offer\<close> returns \<open>min(x, budget)\<close>, which is at most the budget; for the
  example product (fair price 189000) it returns 147420 whenever the budget is at least
  147420, and 144000 when the budget is 144000.
\<close>

theorem opening_offer_formula:
  "(calculate_fair_price (product ctx) = Inr fair \<and>
    pybind (imul fair (fl (78 / 100))) py_int = Inr x \<longrightarrow>
    generate_opening_offer ctx
      = Inr (min x (your_budget ctx), Opening_msg (min x (your_budget ctx))) \<and>
    min x (your_budget ctx) \<le> your_budget ctx) \<and>
   (product ctx = mango \<and> 147420 \<le> your_budget ctx \<longrightarrow>
    generate_opening_offer ctx = Inr (147420, Opening_msg 147420)) \<and>
   (product ctx = mango \<and> your_budget ctx = 144000 \<longrightarrow>
    generate_opening_offer ctx = Inr (144000, Opening_msg 144000))"
  using opening_formula [of ctx fair x] opening_mango_unclamped [of ctx]
    opening_mango_clamped [of ctx]
  by simp

theorem opening_offer_formula_witness:
  "calculate_fair_price (product (mango_context 150000 1 [])) = Inr 189000 \<and>
   pybind (imul 189000 (fl (78 / 100))) py_int = Inr 147420 \<and>
   generate_opening_offer (mango_context 150000 1 []) = Inr (147420, Opening_msg 147420) \<and>
   generate_opening_offer (mango_context 144000 1 []) = Inr (144000, Opening_msg 144000)"
proof -
  have a: "calculate_fair_price (product (mango_context 150000 1 [])) = Inr 189000"
    by (simp add: mango_context_def fair_mango)
  have b: "pybind (imul 189000 (fl (78 / 100))) py_int = Inr 147420"
    by (simp add: num_eval)
  have c: "product (mango_context 144000 1 []) = mango"
    "your_budget (mango_context 144000 1 []) = 144000"
    "your_budget (mango_context 150000 1 []) = 150000"
    by (simp_all add: mango_context_def)
  from opening_offer_formula [of "mango_context 150000 1 []" 189000 147420] a b c
  have "generate_opening_offer (mango_context 150000 1 []) = Inr (147420, Opening_msg 147420)"
    by simp
  moreover from opening_offer_formula [of "mango_context 144000 1 []"] c
  have "generate_opening_offer (mango_context 144000 1 []) = Inr (144000, Opening_msg 144000)"
    by blast
  ultimately show ?thesis using a b by simp
qed

section \<open>Snap accept\<close>

lemma fair_small: "calculate_fair_price small_product = Inr 9"
  by (simp add: calculate_fair_price_def quality_multiplier_def small_product_def
      str_eval num_eval)

lemma zone_small: "target_zone small_product = Inr (7, 8)"
  by (simp add: target_zone_def fair_small num_eval)

lemma snap_bound_small: "pybind (imul 9 (fl (85 / 100))) py_int = Inr 7"
  by (simp add: num_eval)

lemma respond_small:
  "respond_to_seller_offer small_context 7 (Mock_come_down_msg 7) = Inr (ACCEPTED, 7, Agreed_msg 7)"
  by (simp add: respond_to_seller_offer_def small_context_def fair_small zone_small num_eval)

lemma snap_bound_mango: "pybind (imul 189000 (fl (85 / 100))) py_int = Inr 160650"
  by (simp add: num_eval)

lemma snap_or_zone:
  assumes "calculate_fair_price (product ctx) = Inr fair"
    and "target_zone (product ctx) = Inr (low, high)"
    and "pybind (imul fair (fl (85 / 100))) py_int = Inr bound"
    and "sp \<le> your_budget ctx" and "sp \<le> bound"
  shows "respond_to_seller_offer ctx sp sm =
     Inr (ACCEPTED, sp, if low \<le> sp \<and> sp \<le> high then Agreed_msg sp else Compelling_msg sp)"
  using assms by (simp add: respond_to_seller_offer_def Let_def)

text \<open>
  C7 as stated fails in its last part: with fair price 9 the zone accept starts at
  \<open>int(9 * 0.88) = 7\<close> and the snap bound is \<open>int(9 * 0.85) = 7\<close>, so a seller price of 7
  within budget is accepted by the zone accept, the earlier branch, not by the snap accept.
\<close>

theorem snap_accept_branch_counterexample:
  "calculate_fair_price (product small_context) = Inr 9 \<and>
   pybind (imul 9 (fl (85 / 100))) py_int = Inr 7 \<and>
   7 \<le> your_budget small_context \<and>
   respond_to_seller_offer small_context 7 (Mock_come_down_msg 7) = Inr (ACCEPTED, 7, Agreed_msg 7) \<and>
   respond_to_seller_offer small_context 7 (Mock_come_down_msg 7)
     \<noteq> Inr (ACCEPTED, 7, Compelling_msg 7)"
proof -
  have "calculate_fair_price (product small_context) = Inr 9"
    and "7 \<le> your_budget small_context"
    by (simp_all add: small_context_def fair_small)
  then show ?thesis
    using respond_small snap_bound_small by simp
qed

text \<open>
  C7 (snap accept), amended. For every context and round number, if the seller price is
  at most the budget and at most \<open>int(fair * 0.85)\<close>, \<open>respond_to_seller_offer\<close> returns
  ACCEPTED with the seller price: by the zone accept when the price also lies in the
  target zone, and by the snap accept otherwise.
\<close>

theorem snap_accept:
  "calculate_fair_price (product ctx) = Inr fair \<Longrightarrow>
   target_zone (product ctx) = Inr (low, high) \<Longrightarrow>
   pybind (imul fair (fl (85 / 100))) py_int = Inr bound \<Longrightarrow>
   sp \<le> your_budget ctx \<Longrightarrow> sp \<le> bound \<Longrightarrow>
   respond_to_seller_offer ctx sp sm =
     Inr (ACCEPTED, sp, if low \<le> sp \<and> sp \<le> high then Agreed_msg sp else Compelling_msg sp)"
  by (rule snap_or_zone)

theorem snap_accept_witness:
  "calculate_fair_price (product (mango_context 200000 7 [147420])) = Inr 189000 \<and>
   target_zone (product (mango_context 200000 7 [147420])) = Inr (166320, 183330) \<and>
   pybind (imul 189000 (fl (85 / 100))) py_int = Inr 160650 \<and>
   160000 \<le> your_budget (mango_context 200000 7 [147420]) \<and> (160000 :: int) \<le> 160650 \<and>
   respond_to_seller_offer (mango_context 200000 7 [147420]) 160000 (Mock_come_down_msg 160000)
     = Inr (ACCEPTED, 160000, Compelling_msg 160000)"
proof -
  have a: "calculate_fair_price (product (mango_context 200000 7 [147420])) = Inr 189000"
    and b: "target_zone (product (mango_context 200000 7 [147420])) = Inr (166320, 183330)"
    and c: "160000 \<le> your_budget (mango_context 200000 7 [147420])"
    by (simp_all add: mango_context_def fair_mango zone_mango)
  have d: "(160000 :: int) \<le> 160650" by simp
  from snap_accept [OF a b snap_bound_mango c d, of "Mock_come_down_msg 160000"]
  show ?thesis using a b c snap_bound_mango by simp
qed

section \<open>The negotiation loop\<close>

lemma buyer_turns_simps [simp]:
  "buyer_turns [] = 0"
  "buyer_turns (ms @ ms') = buyer_turns ms + buyer_turns ms'"
  "buyer_turns ((Seller, m) # ms) = buyer_turns ms"
  "buyer_turns ((Buyer, m) # ms) = Suc (buyer_turns ms)"
  by (simp_all add: buyer_turns_def)

lemma run_rounds_returns:
  "\<not> deal_made st \<Longrightarrow> final_price st = None \<Longrightarrow>
   returns (run_rounds agent seller rs st) (\<lambda>st'.
   \<exists>n. n \<le> length rs \<and> (rs \<noteq> [] \<longrightarrow> 1 \<le> n) \<and>
     (0 < n \<longrightarrow> current_round (loop_context st') = rs ! (n - 1) + 1) \<and>
     (n = 0 \<longrightarrow> st' = st) \<and>
     buyer_turns (messages (loop_context st')) = buyer_turns (messages (loop_context st)) + n \<and>
     (deal_made st' \<longrightarrow> final_price st' \<noteq> None) \<and>
     (\<not> deal_made st' \<longrightarrow> n = length rs \<and> final_price st' = None))"
proof (induction rs arbitrary: st)
  case Nil
  then show ?case by (simp add: returns_def)
next
  case (Cons r rest)
  show ?case
    unfolding run_rounds.simps Let_def
    apply (intro returns_intros)
      apply (rule exI [of _ 1], simp)
     apply (rule exI [of _ 1], simp)
    apply (rule returns_weaken [OF Cons.IH])
    using Cons.prems apply simp
    using Cons.prems apply simp
    apply (erule exE)
    subgoal for x a b aa ba xa ab bb ac bc v n
      by (rule exI [of _ "Suc n"]) (cases n; auto)
    done
qed

lemma run_rounds_inv:
  "run_rounds agent seller rs st = Inr st' \<Longrightarrow> \<not> deal_made st \<Longrightarrow> final_price st = None \<Longrightarrow>
   \<exists>n. n \<le> length rs \<and> (rs \<noteq> [] \<longrightarrow> 1 \<le> n) \<and>
     (0 < n \<longrightarrow> current_round (loop_context st') = rs ! (n - 1) + 1) \<and>
     (n = 0 \<longrightarrow> st' = st) \<and>
     buyer_turns (messages (loop_context st')) = buyer_turns (messages (loop_context st)) + n \<and>
     (deal_made st' \<longrightarrow> final_price st' \<noteq> None) \<and>
     (\<not> deal_made st' \<longrightarrow> n = length rs \<and> final_price st' = None)"
  using returnsD [OF run_rounds_returns] by blast

lemma run_result:
  assumes "run_negotiation_test agent p budget smin = Inr r"
  shows "1 \<le> rounds r \<and> rounds r \<le> 10 \<and> buyer_turns (conversation r) = nat (rounds r) \<and>
    (result_deal_made r \<longrightarrow> result_final_price r \<noteq> None) \<and>
    (\<not> result_deal_made r \<longrightarrow> rounds r = 10 \<and> result_final_price r = None)"
proof -
  from assms obtain price msg st where
    run: "run_rounds agent \<lparr>min_price = smin, mock_personality = ''standard''\<rparr> [0..9]
       \<lparr>loop_context = \<lparr>product = p, your_budget = budget, current_round = 0,
              seller_offers = [price], your_offers = [], messages = [(Seller, msg)]\<rparr>,
        seller_price = price, seller_msg = msg, deal_made = False, final_price = None\<rparr> = Inr st"
    and res: "(case (deal_made st, final_price st) of
       (True, Some fp) \<Rightarrow>
         pybind (int_truediv (budget - fp) budget) (\<lambda>s.
         pybind (int_truediv (base_market_price p - fp) (base_market_price p)) (\<lambda>b.
         Inr \<lparr>result_deal_made = True, result_final_price = Some fp,
              rounds = current_round (loop_context st),
              savings = budget - fp,
              savings_pct = fmul s (exact 100),
              below_market_pct = fmul b (exact 100),
              conversation = messages (loop_context st)\<rparr>))
     | (True, None) \<Rightarrow> Inl (Raised ''TypeError'')
     | (False, fp) \<Rightarrow>
         Inr \<lparr>result_deal_made = False, result_final_price = fp,
              rounds = current_round (loop_context st),
              savings = 0, savings_pct = exact 0, below_market_pct = exact 0,
              conversation = messages (loop_context st)\<rparr>) = Inr r"
    by (auto simp: run_negotiation_test_def pybind_Inr_iff Let_def)
  from run_rounds_inv [OF run] obtain n where
    n: "n \<le> 10" "1 \<le> n" "current_round (loop_context st) = [0..9] ! (n - 1) + 1"
      "buyer_turns (messages (loop_context st)) = n"
      "deal_made st \<longrightarrow> final_price st \<noteq> None"
      "\<not> deal_made st \<longrightarrow> n = 10 \<and> final_price st = None"
    by auto
  have "[0..9] ! (n - 1) = int (n - 1)"
    using n(1,2) by simp
  with n have cr: "current_round (loop_context st) = int n" by simp
  have fields: "rounds r = int n" "conversation r = messages (loop_context st)"
    "result_deal_made r = deal_made st" "result_final_price r = final_price st"
    using res by (auto simp: pybind_Inr_iff cr split: bool.splits option.splits if_splits)
  show ?thesis using n fields by auto
qed

lemma upto_eval: "[0..9] = [0,1,2,3,4,5,6,7,8,9::int]"
  by (simp add: upto.simps)

lemma mock_respond_1: "r < 8 \<Longrightarrow> respond_to_buyer \<lparr>min_price = 100000, mock_personality = ''standard''\<rparr> 1 r
   = Inr (100000, Mock_come_down_msg 100000, False)"
  by (simp add: respond_to_buyer_def num_eval)

lemma mock_respond_1_late: "8 \<le> r \<Longrightarrow> respond_to_buyer \<lparr>min_price = 100000, mock_personality = ''standard''\<rparr> 1 r
   = Inr (100000, Mock_final_offer_msg 100000, False)"
  by (simp add: respond_to_buyer_def num_eval)

lemma mock_opening_mango: "get_opening_price s mango = Inr (270000, Mock_asking_msg 270000)"
  by (simp add: get_opening_price_def mango_def num_eval)

lemma expect_rounds_sel:
  "opening_method (expect_rounds k agent) ctx =
     (if current_round ctx = k then opening_method agent ctx else Inl (Raised ''AssertionError''))"
  "respond_method (expect_rounds k agent) ctx price msg =
     (if k + 1 \<le> current_round ctx \<and> current_round ctx \<le> k + 9
      then respond_method agent ctx price msg else Inl (Raised ''AssertionError''))"
  by (simp_all add: expect_rounds_def)

lemma run_expect_zero:
  "run_negotiation_test (expect_rounds 0 YourBuyerAgent) mango 200000 100000 = Inl (Raised ''AssertionError'')"
  by (simp add: run_negotiation_test_def upto_eval expect_rounds_sel mock_opening_mango Let_def)

lemma stubborn_run_value:
  "run_negotiation_test stubborn_agent mango 200000 100000 =
   Inr \<lparr>result_deal_made = False, result_final_price = None, rounds = 10, savings = 0,
     savings_pct = exact 0, below_market_pct = exact 0,
     conversation = [(Seller, Mock_asking_msg 270000),
       (Buyer, Text ''no''), (Seller, Mock_come_down_msg 100000),
       (Buyer, Text ''no''), (Seller, Mock_come_down_msg 100000),
       (Buyer, Text ''no''), (Seller, Mock_come_down_msg 100000),
       (Buyer, Text ''no''), (Seller, Mock_come_down_msg 100000),
       (Buyer, Text ''no''), (Seller, Mock_come_down_msg 100000),
       (Buyer, Text ''no''), (Seller, Mock_come_down_msg 100000),
       (Buyer, Text ''no''), (Seller, Mock_come_down_msg 100000),
       (Buyer, Text ''no''), (Seller, Mock_come_down_msg 100000),
       (Buyer, Text ''no''), (Seller, Mock_final_offer_msg 100000),
       (Buyer, Text ''no''), (Seller, Mock_final_offer_msg 100000)]\<rparr>"
  by (simp add: run_negotiation_test_def upto_eval stubborn_agent_def mock_respond_1
      mock_respond_1_late mock_opening_mango Let_def)


lemma run_rounds_Cons:
  "run_rounds agent seller (r # rest) st =
     pybind (buyer_call agent st r) (\<lambda>(status, buyer_offer, buyer_msg).
        if status = ACCEPTED
        then Inr (st\<lparr>loop_context := (loop_context st)\<lparr>current_round := r + 1,
                    your_offers := your_offers (loop_context st) @ [buyer_offer],
                    messages := messages (loop_context st) @ [(Buyer, buyer_msg)]\<rparr>,
                  deal_made := True, final_price := Some (seller_price st)\<rparr>)
        else
        pybind (respond_to_buyer seller buyer_offer r) (\<lambda>(price, msg, seller_accepts).
        if seller_accepts
        then Inr \<lparr>loop_context = (loop_context st)\<lparr>current_round := r + 1,
                    your_offers := your_offers (loop_context st) @ [buyer_offer],
                    messages := messages (loop_context st) @ [(Buyer, buyer_msg), (Seller, msg)]\<rparr>,
                  seller_price = price, seller_msg = msg,
                  deal_made = True, final_price = Some buyer_offer\<rparr>
        else run_rounds agent seller rest
               \<lparr>loop_context = (loop_context st)\<lparr>current_round := r + 1,
                    your_offers := your_offers (loop_context st) @ [buyer_offer],
                    seller_offers := seller_offers (loop_context st) @ [price],
                    messages := messages (loop_context st) @ [(Buyer, buyer_msg), (Seller, msg)]\<rparr>,
                seller_price = price, seller_msg = msg,
                deal_made = deal_made st, final_price = final_price st\<rparr>))"
  by (simp add: buyer_call_def Let_def cong: if_cong)

declare run_rounds.simps(2) [simp del]

lemma accept_step:
  assumes "acceptance_in_round agent seller st r"
    and "run_rounds agent seller (r # rest) st = Inr st'"
  shows "deal_made st'"
  using assms unfolding run_rounds_Cons acceptance_in_round_def
  by (auto simp: pybind_def split: sum.splits prod.splits if_splits)

lemma continue_step:
  assumes "\<not> acceptance_in_round agent seller st r"
    and "run_rounds agent seller (r # rest) st = Inr st'"
  shows "\<exists>st2. deal_made st2 = deal_made st \<and>
    (\<forall>xs. run_rounds agent seller (r # xs) st = run_rounds agent seller xs st2)"
proof -
  from assms(2) obtain status offer bmsg where b: "buyer_call agent st r = Inr (status, offer, bmsg)"
    unfolding run_rounds_Cons by (cases "buyer_call agent st r") auto
  with assms(1) have na: "status \<noteq> ACCEPTED"
    by (auto simp: acceptance_in_round_def)
  from assms(2) b na obtain price reply accepts where
    s: "respond_to_buyer seller offer r = Inr (price, reply, accepts)"
    unfolding run_rounds_Cons by (cases "respond_to_buyer seller offer r") auto
  with assms(1) b have ns: "\<not> accepts"
    by (auto simp: acceptance_in_round_def)
  show ?thesis
    by (rule exI [of _ "\<lparr>loop_context = (loop_context st)\<lparr>current_round := r + 1,
                    your_offers := your_offers (loop_context st) @ [offer],
                    seller_offers := seller_offers (loop_context st) @ [price],
                    messages := messages (loop_context st) @ [(Buyer, bmsg), (Seller, reply)]\<rparr>,
                seller_price = price, seller_msg = reply,
                deal_made = deal_made st, final_price = final_price st\<rparr>"])
      (simp add: run_rounds_Cons b na s ns)
qed

lemma deal_has_acceptance:
  "\<not> deal_made st \<Longrightarrow> run_rounds agent seller rs st = Inr st' \<Longrightarrow> deal_made st' \<Longrightarrow>
   \<exists>i<length rs. \<exists>sti. run_rounds agent seller (take i rs) st = Inr sti \<and> \<not> deal_made sti \<and>
     acceptance_in_round agent seller sti (rs ! i)"
proof (induction rs arbitrary: st)
  case Nil
  then show ?case by simp
next
  case (Cons r rest)
  show ?case
  proof (cases "acceptance_in_round agent seller st r")
    case True
    with Cons.prems(1) show ?thesis
      by (intro exI [of _ 0]) simp
  next
    case False
    from continue_step [OF False Cons.prems(2)] obtain st2 where
      d: "deal_made st2 = deal_made st"
      and c: "\<And>xs. run_rounds agent seller (r # xs) st = run_rounds agent seller xs st2"
      by blast
    from Cons.prems(2) c have "run_rounds agent seller rest st2 = Inr st'" by simp
    from Cons.IH [OF _ this Cons.prems(3)] d Cons.prems(1) obtain i sti where
      i: "i < length rest" "run_rounds agent seller (take i rest) st2 = Inr sti"
        "\<not> deal_made sti" "acceptance_in_round agent seller sti (rest ! i)"
      by auto
    show ?thesis
      by (intro exI [of _ "Suc i"] exI [of _ sti]) (use i c in simp)
  qed
qed

lemma acceptance_makes_deal:
  "\<not> deal_made st \<Longrightarrow> i < length rs \<Longrightarrow> run_rounds agent seller (take i rs) st = Inr sti \<Longrightarrow>
   \<not> deal_made sti \<Longrightarrow> acceptance_in_round agent seller sti (rs ! i) \<Longrightarrow>
   run_rounds agent seller rs st = Inr st' \<Longrightarrow> deal_made st'"
proof (induction rs arbitrary: st i)
  case Nil
  then show ?case by simp
next
  case (Cons r rest)
  show ?case
  proof (cases i)
    case 0
    with Cons.prems show ?thesis
      using accept_step [of agent seller st r rest st'] by simp
  next
    case (Suc j)
    have na: "\<not> acceptance_in_round agent seller st r"
    proof
      assume "acceptance_in_round agent seller st r"
      from accept_step [OF this] Cons.prems(3) Suc have "deal_made sti" by simp
      with Cons.prems(4) show False by simp
    qed
    from continue_step [OF na Cons.prems(6)] obtain st2 where
      d: "deal_made st2 = deal_made st"
      and c: "\<And>xs. run_rounds agent seller (r # xs) st = run_rounds agent seller xs st2"
      by blast
    show ?thesis
    proof (rule Cons.IH [of st2 j])
      show "\<not> deal_made st2" using d Cons.prems(1) by simp
      show "j < length rest" using Cons.prems(2) Suc by simp
      show "run_rounds agent seller (take j rest) st2 = Inr sti"
        using Cons.prems(3) Suc c by simp
      show "\<not> deal_made sti" by (rule Cons.prems(4))
      show "acceptance_in_round agent seller sti (rest ! j)"
        using Cons.prems(5) Suc by simp
      show "run_rounds agent seller rest st2 = Inr st'"
        using Cons.prems(6) c by simp
    qed
  qed
qed

lemma expect_turn_number_sel:
  "opening_method (expect_turn_number agent) ctx =
     (if your_offers ctx = [] \<and> current_round ctx = 1 then opening_method agent ctx
      else Inl (Raised ''AssertionError''))"
  "respond_method (expect_turn_number agent) ctx price msg =
     (if your_offers ctx \<noteq> [] \<and> current_round ctx = int (length (your_offers ctx)) + 1
      then respond_method agent ctx price msg else Inl (Raised ''AssertionError''))"
  by (simp_all add: expect_turn_number_def)

lemma run_rounds_expect_turn:
  "int (length (your_offers (loop_context st))) = i \<Longrightarrow>
   run_rounds (expect_turn_number agent) seller [i..j] st = run_rounds agent seller [i..j] st"
proof (induction i j arbitrary: st rule: upto.induct)
  case (1 i j)
  show ?case
  proof (cases "i \<le> j")
    case False
    then show ?thesis by simp
  next
    case True
    then have u: "[i..j] = i # [i + 1..j]" by (simp add: upto_rec1)
    have len: "your_offers (loop_context st) = [] \<longleftrightarrow> i = 0"
      using "1.prems" by auto
    have IH: "run_rounds (expect_turn_number agent) seller [i + 1..j] st2
        = run_rounds agent seller [i + 1..j] st2"
      if "int (length (your_offers (loop_context st2))) = i + 1" for st2
      using "1.IH" [OF True that] .
    show ?thesis
      unfolding u run_rounds.simps Let_def
      using "1.prems" len by (simp add: expect_turn_number_sel IH cong: if_cong)
  qed
qed

lemma run_expect_turn:
  "run_negotiation_test (expect_turn_number agent) p budget smin
     = run_negotiation_test agent p budget smin"
  by (simp add: run_negotiation_test_def run_rounds_expect_turn Let_def)


lemma run_deal_iff_acceptance:
  assumes "run_negotiation_test agent p budget smin = Inr r"
  shows "\<exists>price msg.
    get_opening_price \<lparr>min_price = smin, mock_personality = ''standard''\<rparr> p = Inr (price, msg) \<and>
    (result_deal_made r \<longleftrightarrow>
      (\<exists>k<10. \<exists>st.
         run_rounds agent \<lparr>min_price = smin, mock_personality = ''standard''\<rparr> (take k [0..9])
           (opening_state p budget price msg) = Inr st \<and>
         \<not> deal_made st \<and>
         acceptance_in_round agent \<lparr>min_price = smin, mock_personality = ''standard''\<rparr> st (int k)))"
proof -
  let ?s = "\<lparr>min_price = smin, mock_personality = ''standard''\<rparr>"
  from assms obtain price msg st where
    o: "get_opening_price ?s p = Inr (price, msg)"
    and run: "run_rounds agent ?s [0..9] (opening_state p budget price msg) = Inr st"
    and res: "(case (deal_made st, final_price st) of
       (True, Some fp) \<Rightarrow>
         pybind (int_truediv (budget - fp) budget) (\<lambda>s.
         pybind (int_truediv (base_market_price p - fp) (base_market_price p)) (\<lambda>b.
         Inr \<lparr>result_deal_made = True, result_final_price = Some fp,
              rounds = current_round (loop_context st),
              savings = budget - fp,
              savings_pct = fmul s (exact 100),
              below_market_pct = fmul b (exact 100),
              conversation = messages (loop_context st)\<rparr>))
     | (True, None) \<Rightarrow> Inl (Raised ''TypeError'')
     | (False, fp) \<Rightarrow>
         Inr \<lparr>result_deal_made = False, result_final_price = fp,
              rounds = current_round (loop_context st),
              savings = 0, savings_pct = exact 0, below_market_pct = exact 0,
              conversation = messages (loop_context st)\<rparr>) = Inr r"
    by (auto simp: run_negotiation_test_def opening_state_def pybind_Inr_iff Let_def)
  have d: "result_deal_made r = deal_made st"
    using res by (auto simp: pybind_Inr_iff split: bool.splits option.splits if_splits)
  have nd: "\<not> deal_made (opening_state p budget price msg)"
    by (simp add: opening_state_def)
  have nth: "[0..9] ! k = int k" if "k < 10" for k
    using that by simp
  have "deal_made st \<longleftrightarrow>
      (\<exists>k<10. \<exists>sti. run_rounds agent ?s (take k [0..9]) (opening_state p budget price msg) = Inr sti \<and>
         \<not> deal_made sti \<and> acceptance_in_round agent ?s sti (int k))"
  proof
    assume "deal_made st"
    from deal_has_acceptance [OF nd run this] nth show
      "\<exists>k<10. \<exists>sti. run_rounds agent ?s (take k [0..9]) (opening_state p budget price msg) = Inr sti \<and>
         \<not> deal_made sti \<and> acceptance_in_round agent ?s sti (int k)"
      by auto
  next
    assume "\<exists>k<10. \<exists>sti. run_rounds agent ?s (take k [0..9]) (opening_state p budget price msg) = Inr sti \<and>
         \<not> deal_made sti \<and> acceptance_in_round agent ?s sti (int k)"
    then obtain k sti where k: "k < 10"
      "run_rounds agent ?s (take k [0..9]) (opening_state p budget price msg) = Inr sti"
      "\<not> deal_made sti" "acceptance_in_round agent ?s sti (int k)"
      by blast
    from k(1) have "k < length [0..9]" by simp
    moreover from k(4) nth [OF k(1)] have "acceptance_in_round agent ?s sti ([0..9] ! k)" by simp
    ultimately show "deal_made st"
      using acceptance_makes_deal [OF nd _ k(2) k(3) _ run] by blast
  qed
  with o d show ?thesis by blast
qed

text \<open>
  C2 (termination). \<open>run_negotiation_test\<close> is defined by recursion over the ten round
  numbers of \<open>range(10)\<close>, so it ends whatever statuses and offers the buyer strategy
  returns. Whenever it returns a result, between 1 and 10 buyer turns were taken (\<open>rounds\<close>
  counts them) and a deal carries a final price. The result reports a deal exactly when
  an acceptance occurred in one of the rounds the loop reached: the buyer returned
  ACCEPTED there, or the seller accepted the buyer's offer. So when no acceptance occurs
  in the 10 turns, the result reports \<open>deal_made = False\<close>, after exactly 10 turns and with
  no final price, whatever other statuses (ONGOING, REJECTED, TIMEOUT) were returned.
\<close>

theorem negotiation_ends_within_ten_turns:
  "run_negotiation_test agent p budget smin = Inr r \<Longrightarrow>
   1 \<le> rounds r \<and> rounds r \<le> 10 \<and> buyer_turns (conversation r) = nat (rounds r) \<and>
   (result_deal_made r \<longrightarrow> result_final_price r \<noteq> None) \<and>
   (\<not> result_deal_made r \<longrightarrow> rounds r = 10 \<and> result_final_price r = None) \<and>
   (\<exists>price msg.
      get_opening_price \<lparr>min_price = smin, mock_personality = ''standard''\<rparr> p = Inr (price, msg) \<and>
      (result_deal_made r \<longleftrightarrow>
        (\<exists>k<10. \<exists>st.
           run_rounds agent \<lparr>min_price = smin, mock_personality = ''standard''\<rparr> (take k [0..9])
             (opening_state p budget price msg) = Inr st \<and>
           \<not> deal_made st \<and>
           acceptance_in_round agent \<lparr>min_price = smin, mock_personality = ''standard''\<rparr> st
             (int k))))"
  using run_result [of agent p budget smin r] run_deal_iff_acceptance [of agent p budget smin r]
  by blast

theorem negotiation_ends_within_ten_turns_witness:
  "run_negotiation_test stubborn_agent mango 200000 100000 =
   Inr \<lparr>result_deal_made = False, result_final_price = None, rounds = 10, savings = 0,
     savings_pct = exact 0, below_market_pct = exact 0,
     conversation = [(Seller, Mock_asking_msg 270000),
       (Buyer, Text ''no''), (Seller, Mock_come_down_msg 100000),
       (Buyer, Text ''no''), (Seller, Mock_come_down_msg 100000),
       (Buyer, Text ''no''), (Seller, Mock_come_down_msg 100000),
       (Buyer, Text ''no''), (Seller, Mock_come_down_msg 100000),
       (Buyer, Text ''no''), (Seller, Mock_come_down_msg 100000),
       (Buyer, Text ''no''), (Seller, Mock_come_down_msg 100000),
       (Buyer, Text ''no''), (Seller, Mock_come_down_msg 100000),
       (Buyer, Text ''no''), (Seller, Mock_come_down_msg 100000),
       (Buyer, Text ''no''), (Seller, Mock_final_offer_msg 100000),
       (Buyer, Text ''no''), (Seller, Mock_final_offer_msg 100000)]\<rparr> \<and>
   buyer_turns [(Seller, Mock_asking_msg 270000),
       (Buyer, Text ''no''), (Seller, Mock_come_down_msg 100000),
       (Buyer, Text ''no''), (Seller, Mock_come_down_msg 100000),
       (Buyer, Text ''no''), (Seller, Mock_come_down_msg 100000),
       (Buyer, Text ''no''), (Seller, Mock_come_down_msg 100000),
       (Buyer, Text ''no''), (Seller, Mock_come_down_msg 100000),
       (Buyer, Text ''no''), (Seller, Mock_come_down_msg 100000),
       (Buyer, Text ''no''), (Seller, Mock_come_down_msg 100000),
       (Buyer, Text ''no''), (Seller, Mock_come_down_msg 100000),
       (Buyer, Text ''no''), (Seller, Mock_final_offer_msg 100000),
       (Buyer, Text ''no''), (Seller, Mock_final_offer_msg 100000)] = 10"
  using negotiation_ends_within_ten_turns [OF stubborn_run_value] stubborn_run_value
  by simp

text \<open>
  C8 as stated fails: the loop sets \<open>current_round\<close> to \<open>round_num + 1\<close> before it calls
  the buyer, so a buyer that asserts the precondition \<open>current_round == 0\<close> in its opening
  offer (here the repository's buyer behind that assertion) raises on the first turn.
\<close>

theorem opening_round_zero_counterexample:
  "run_negotiation_test (expect_rounds 0 YourBuyerAgent) mango 200000 100000
     = Inl (Raised ''AssertionError'')"
  by (rule run_expect_zero)

lemma rounds_after_turns:
  assumes "run_rounds agent seller (take k [0..9]) (opening_state p budget price msg) = Inr st"
    and "k \<le> 10" and "\<not> deal_made st"
  shows "current_round (loop_context st) = int k"
proof -
  have "\<not> deal_made (opening_state p budget price msg)"
    and "final_price (opening_state p budget price msg) = None"
    by (simp_all add: opening_state_def)
  from returnsD [OF run_rounds_returns [OF this] assms(1)] assms(2,3) obtain n where
    n: "n = k" "0 < n \<longrightarrow> current_round (loop_context st) = take k [0..9] ! (n - 1) + 1"
      "n = 0 \<longrightarrow> st = opening_state p budget price msg"
    by auto
  show ?thesis
  proof (cases k)
    case 0
    with n show ?thesis by (simp add: opening_state_def)
  next
    case (Suc j)
    with assms(2) have "take k [0..9] ! j = int j" by simp
    with n Suc show ?thesis by simp
  qed
qed

lemma run_rounds_of_result:
  assumes "run_negotiation_test agent p budget smin = Inr r"
  shows "\<exists>price msg st.
    get_opening_price \<lparr>min_price = smin, mock_personality = ''standard''\<rparr> p = Inr (price, msg) \<and>
    run_rounds agent \<lparr>min_price = smin, mock_personality = ''standard''\<rparr> [0..9]
      (opening_state p budget price msg) = Inr st \<and>
    rounds r = current_round (loop_context st) \<and>
    rounds r = int (buyer_turns (conversation r))"
proof -
  let ?s = "\<lparr>min_price = smin, mock_personality = ''standard''\<rparr>"
  from assms obtain price msg st where
    o: "get_opening_price ?s p = Inr (price, msg)"
    and run: "run_rounds agent ?s [0..9] (opening_state p budget price msg) = Inr st"
    and res: "(case (deal_made st, final_price st) of
       (True, Some fp) \<Rightarrow>
         pybind (int_truediv (budget - fp) budget) (\<lambda>s.
         pybind (int_truediv (base_market_price p - fp) (base_market_price p)) (\<lambda>b.
         Inr \<lparr>result_deal_made = True, result_final_price = Some fp,
              rounds = current_round (loop_context st),
              savings = budget - fp,
              savings_pct = fmul s (exact 100),
              below_market_pct = fmul b (exact 100),
              conversation = messages (loop_context st)\<rparr>))
     | (True, None) \<Rightarrow> Inl (Raised ''TypeError'')
     | (False, fp) \<Rightarrow>
         Inr \<lparr>result_deal_made = False, result_final_price = fp,
              rounds = current_round (loop_context st),
              savings = 0, savings_pct = exact 0, below_market_pct = exact 0,
              conversation = messages (loop_context st)\<rparr>) = Inr r"
    by (auto simp: run_negotiation_test_def opening_state_def pybind_Inr_iff Let_def)
  have "rounds r = current_round (loop_context st)"
    using res by (auto simp: pybind_Inr_iff split: bool.splits option.splits if_splits)
  moreover have "rounds r = int (buyer_turns (conversation r))"
    using run_result [OF assms] by simp
  ultimately show ?thesis using o run by blast
qed

lemma stubborn_first_round:
  "run_rounds stubborn_agent \<lparr>min_price = 100000, mock_personality = ''standard''\<rparr> (take 1 [0..9])
     (opening_state mango 200000 270000 (Mock_asking_msg 270000)) =
   Inr \<lparr>loop_context = \<lparr>product = mango, your_budget = 200000, current_round = 1,
        seller_offers = [270000, 100000], your_offers = [1],
        messages = [(Seller, Mock_asking_msg 270000), (Buyer, Text ''no''),
          (Seller, Mock_come_down_msg 100000)]\<rparr>,
      seller_price = 100000, seller_msg = Mock_come_down_msg 100000,
      deal_made = False, final_price = None\<rparr>"
  by (simp add: upto_eval run_rounds.simps(2) opening_state_def stubborn_agent_def mock_respond_1 Let_def)

text \<open>
  C8 (round counter convention), amended. The loop is entered with the round number 0 of
  the new context, and every turn sets it to \<open>round_num + 1\<close> before the buyer is called:
  after \<open>k\<close> turns without settlement it is \<open>k\<close>, and \<open>rounds\<close> in the result is the number
  of buyer turns taken. So the opening offer observes \<open>current_round == 1\<close> (with no
  earlier buyer offer), not 0, and every response observes one more than the number of
  buyer offers recorded so far: asserting these round numbers in the buyer never changes
  a run.
\<close>

theorem buyer_observes_rounds_from_one:
  "run_negotiation_test (expect_turn_number agent) p budget smin
     = run_negotiation_test agent p budget smin \<and>
   current_round (loop_context (opening_state p budget price msg)) = 0 \<and>
   (run_rounds agent seller (take k [0..9]) (opening_state p budget price msg) = Inr st \<and>
    k \<le> 10 \<and> \<not> deal_made st \<longrightarrow> current_round (loop_context st) = int k) \<and>
   (run_negotiation_test agent p budget smin = Inr r \<longrightarrow>
    (\<exists>price msg st.
       get_opening_price \<lparr>min_price = smin, mock_personality = ''standard''\<rparr> p = Inr (price, msg) \<and>
       run_rounds agent \<lparr>min_price = smin, mock_personality = ''standard''\<rparr> [0..9]
         (opening_state p budget price msg) = Inr st \<and>
       rounds r = current_round (loop_context st) \<and>
       rounds r = int (buyer_turns (conversation r))))"
  using run_expect_turn [of agent p budget smin]
    rounds_after_turns [of agent seller k p budget price msg st]
    run_rounds_of_result [of agent p budget smin r]
  by (simp add: opening_state_def)

theorem buyer_observes_rounds_from_one_witness:
  "run_negotiation_test (expect_turn_number stubborn_agent) mango 200000 100000
     = run_negotiation_test stubborn_agent mango 200000 100000 \<and>
   rounds (projr (run_negotiation_test stubborn_agent mango 200000 100000)) = 10 \<and>
   current_round (loop_context (projr
     (run_rounds stubborn_agent \<lparr>min_price = 100000, mock_personality = ''standard''\<rparr>
        (take 1 [0..9]) (opening_state mango 200000 270000 (Mock_asking_msg 270000))))) = 1"
proof -
  note t = buyer_observes_rounds_from_one [of stubborn_agent mango 200000 100000
      270000 "Mock_asking_msg 270000" "\<lparr>min_price = 100000, mock_personality = ''standard''\<rparr>" 1]
  from t have "run_negotiation_test (expect_turn_number stubborn_agent) mango 200000 100000
     = run_negotiation_test stubborn_agent mango 200000 100000"
    by blast
  moreover from t [where st = "projr (run_rounds stubborn_agent
      \<lparr>min_price = 100000, mock_personality = ''standard''\<rparr> (take 1 [0..9])
      (opening_state mango 200000 270000 (Mock_asking_msg 270000)))"] stubborn_first_round
  have "current_round (loop_context (projr
     (run_rounds stubborn_agent \<lparr>min_price = 100000, mock_personality = ''standard''\<rparr>
        (take 1 [0..9]) (opening_state mango 200000 270000 (Mock_asking_msg 270000))))) = 1"
    by simp
  ultimately show ?thesis using stubborn_run_value by simp
qed

section \<open>Truncation and rounding error\<close>


lemma trunc_ge: "of_int a \<le> r \<Longrightarrow> a \<le> trunc r"
  unfolding trunc_def by (auto simp: le_floor_iff le_ceiling_iff)

lemma trunc_of_int [simp]: "trunc (of_int n) = n"
  by (simp add: trunc_def)


lemma py_max2_ge:
  "py_max2 (Finite a) x = Finite a \<or> (\<exists>r. py_max2 (Finite a) x = Finite r \<and> a \<le> r) \<or> py_max2 (Finite a) x = PosInf"
  by (cases x) (auto simp: py_max2_def py_lt_def)

lemma py_max3_exact_ge:
  "(\<exists>r. py_max3 (exact a) x y = Finite r \<and> of_int a \<le> r) \<or> py_max3 (exact a) x y = PosInf"
  unfolding py_max3_def exact_def
  by (cases x; cases y) (auto simp: py_max2_def py_lt_def)

lemma py_int_min_max_ge:
  assumes "py_int (py_min2 (exact b) (py_max3 (exact a) x y)) = Inr p" and "a \<le> b"
  shows "a \<le> p"
  using py_max3_exact_ge [of a x y] assms
  by (auto simp: py_min2_def py_lt_def exact_def py_int_def intro: trunc_ge split: if_splits)

lemma pow2_pos: "0 < pow2 e"
  by (simp add: pow2_def)

lemma pow2_52_53:
  assumes "0 \<le> e"
  shows "pow2 (e - 52) / 2 = pow2 e / 2 ^ 53"
proof (cases "52 \<le> e")
  case True
  then have "nat e = nat (e - 52) + 52" by simp
  then have "(2::rat) ^ nat e = 2 ^ nat (e - 52) * 2 ^ 52"
    by (simp only: power_add)
  with True assms show ?thesis by (simp add: pow2_def)
next
  case False
  define a :: rat where "a = 2 ^ nat (52 - e)"
  define b :: rat where "b = 2 ^ nat e"
  from False assms have "52 = nat (52 - e) + nat e" by simp
  then have "(2::rat) ^ 52 = 2 ^ nat (52 - e) * 2 ^ nat e"
    by (simp only: power_add)
  then have ab: "a * b = 2 ^ 52" by (simp only: a_def b_def)
  have a: "0 < a" by (simp add: a_def)
  have "b = 2 ^ 52 / a" using ab a by (simp add: field_simps)
  then have "1 / a / 2 = b / 2 ^ 53" by simp
  with False assms show ?thesis by (simp add: pow2_def a_def b_def)
qed

lemma ilog2_bounds:
  assumes "1 \<le> \<bar>x\<bar>"
  shows "0 \<le> ilog2 x" and "pow2 (ilog2 x) \<le> \<bar>x\<bar>"
proof -
  let ?n = "\<lfloor>\<bar>x\<bar>\<rfloor>"
  have n: "1 \<le> ?n" using assms by simp
  then have pos: "0 < ?n" by simp
  from bitlen_bounds [OF pos] have b: "2 ^ nat (bitlen ?n - 1) \<le> ?n" by simp
  have bl: "1 \<le> bitlen ?n"
    using pos by (simp add: bitlen_alt_def)
  show "0 \<le> ilog2 x" using assms bl by (simp add: ilog2_def)
  have "pow2 (ilog2 x) = 2 ^ nat (bitlen ?n - 1)"
    using assms bl by (simp add: ilog2_def pow2_def)
  also have "\<dots> = of_int (2 ^ nat (bitlen ?n - 1))" by simp
  also have "\<dots> \<le> of_int ?n" using b by (simp only: of_int_le_iff)
  also have "\<dots> \<le> \<bar>x\<bar>" by simp
  finally show "pow2 (ilog2 x) \<le> \<bar>x\<bar>" .
qed

lemma round_half_even_error: "\<bar>of_int (round_half_even t) - t\<bar> \<le> 1 / 2"
proof -
  have "of_int \<lfloor>t\<rfloor> \<le> t" "t < of_int \<lfloor>t\<rfloor> + 1" by linarith+
  then show ?thesis
    unfolding round_half_even_def Let_def by (simp add: abs_le_iff)
qed

lemma fl_error:
  assumes "1 \<le> \<bar>x\<bar>" and "fl x = Finite y"
  shows "\<bar>y - x\<bar> \<le> \<bar>x\<bar> / 2 ^ 53"
proof -
  define u where "u = pow2 (ilog2 x - 52)"
  define m where "m = round_half_even (x / u)"
  from assms(1) have x0: "x \<noteq> 0" by auto
  have e: "max (ilog2 x) (- 1022) = ilog2 x" using ilog2_bounds(1) [OF assms(1)] by simp
  from assms(2) x0 have y: "y = of_int m * u"
    by (simp add: fl_def Let_def e u_def m_def split: if_splits)
  have u: "0 < u" by (simp add: u_def pow2_pos)
  have "y - x = (of_int m - x / u) * u"
    using u by (simp add: y left_diff_distrib)
  then have "\<bar>y - x\<bar> = \<bar>of_int m - x / u\<bar> * u"
    using u by (simp add: abs_mult)
  also have "\<dots> \<le> (1 / 2) * u"
    using round_half_even_error [of "x / u"] u unfolding m_def by (intro mult_right_mono) simp_all
  also have "\<dots> = pow2 (ilog2 x) / 2 ^ 53"
    using pow2_52_53 [OF ilog2_bounds(1) [OF assms(1)]] by (simp add: u_def)
  also have "\<dots> \<le> \<bar>x\<bar> / 2 ^ 53"
    using ilog2_bounds(2) [OF assms(1)] by (simp add: divide_right_mono)
  finally show ?thesis .
qed

lemma fl_cases:
  "(\<exists>y. fl x = Finite y) \<or> (fl x = PosInf \<and> 0 < x) \<or> (fl x = NegInf \<and> x < 0)"
  unfolding fl_def Let_def by (cases "x = 0"; cases "0 < x") auto

lemma fl_scale:
  assumes "1 \<le> \<bar>x\<bar>" and "fl x = Finite y"
  shows "0 < x \<Longrightarrow> 999 / 1000 * x \<le> y" and "x < 0 \<Longrightarrow> y \<le> 999 / 1000 * x"
proof -
  have "\<bar>x\<bar> / 2 ^ 53 \<le> \<bar>x\<bar> / 1000" by (intro divide_left_mono) simp_all
  with fl_error [OF assms] have e: "\<bar>y - x\<bar> \<le> \<bar>x\<bar> / 1000" by linarith
  show "0 < x \<Longrightarrow> 999 / 1000 * x \<le> y" using e by linarith
  show "x < 0 \<Longrightarrow> y \<le> 999 / 1000 * x" using e by linarith
qed

lemma imul_scale_pos:
  assumes c: "101 / 100 \<le> c" and n: "1 \<le> n" and r: "imul n (Finite c) = Inr a"
  shows "(\<exists>z. a = Finite z \<and> of_int n \<le> z) \<or> a = PosInf"
proof -
  from r obtain y where y: "fl (of_int n) = Finite y" and a: "a = fl (y * c)"
    by (auto simp: imul_def float_of_int_def pybind_def fmul_def split: pyfloat.splits)
  have n1: "(1::rat) \<le> of_int n" using n by simp
  then have y1: "999 / 1000 * of_int n \<le> y"
    using fl_scale(1) [OF _ y] by simp
  with n1 have y0: "0 \<le> y" by linarith
  have "999 / 1000 * of_int n * (101 / 100) \<le> y * c"
    using y1 c y0 n1 by (intro mult_mono) simp_all
  with n1 have x2: "100899 / 100000 * of_int n \<le> y * c" by simp
  with n1 have x21: "1 \<le> y * c" by linarith
  from fl_cases [of "y * c"] show ?thesis
  proof (elim disjE exE conjE)
    fix z assume z: "fl (y * c) = Finite z"
    from x21 have "999 / 1000 * (y * c) \<le> z"
      using fl_scale(1) [OF _ z] by simp
    with x2 n1 have "of_int n \<le> z" by linarith
    with z a show ?thesis by simp
  next
    assume "fl (y * c) = PosInf"
    with a show ?thesis by simp
  next
    assume "y * c < 0"
    with x21 show ?thesis by simp
  qed
qed

lemma imul_scale_neg:
  assumes c: "101 / 100 \<le> c" and n: "n \<le> - 1" and r: "imul n (Finite c) = Inr a"
  shows "(\<exists>z. a = Finite z \<and> z \<le> of_int n) \<or> a = NegInf"
proof -
  from r obtain y where y: "fl (of_int n) = Finite y" and a: "a = fl (y * c)"
    by (auto simp: imul_def float_of_int_def pybind_def fmul_def split: pyfloat.splits)
  have n1: "of_int n \<le> (- 1::rat)" using n by (simp add: of_int_le_iff [of n "- 1", where ?'a = rat, simplified])
  then have y1: "y \<le> 999 / 1000 * of_int n"
    using fl_scale(2) [OF _ y] by simp
  with n1 have y0: "y \<le> 0" by linarith
  have "999 / 1000 * (- of_int n) * (101 / 100) \<le> (- y) * c"
    using y1 c y0 n1 by (intro mult_mono) simp_all
  with n1 have x2: "y * c \<le> 100899 / 100000 * of_int n" by simp
  with n1 have x21: "y * c \<le> - 1" by linarith
  from fl_cases [of "y * c"] show ?thesis
  proof (elim disjE exE conjE)
    fix z assume z: "fl (y * c) = Finite z"
    from x21 have "z \<le> 999 / 1000 * (y * c)"
      using fl_scale(2) [OF _ z] by simp
    with x2 n1 have "z \<le> of_int n" by linarith
    with z a show ?thesis by simp
  next
    assume "fl (y * c) = NegInf"
    with a show ?thesis by simp
  next
    assume "0 < y * c"
    with x21 show ?thesis by simp
  qed
qed

lemma imul_zero: "imul 0 (Finite c) = Inr (Finite 0)"
  by (simp add: imul_def float_of_int_def pybind_def fmul_def fl_def)


lemma scale_consts:
  "fl (11 / 10) = Finite (2476979795053773 / 2251799813685248)"
  "fl (115 / 100) = Finite (2589569785738035 / 2251799813685248)"
  "fl (105 / 100) = Finite (4728779608739021 / 4503599627370496)"
  "fadd (fl 1) (fl (7 / 100)) = Finite (4818851601286431 / 4503599627370496)"
  "fadd (fl 1) (fl (5 / 100)) = Finite (4728779608739021 / 4503599627370496)"
  "fadd (fl 1) (fl (3 / 100)) = Finite (4638707616191611 / 4503599627370496)"
  by (simp_all add: num_eval)

lemma imul_grow:
  assumes "k = Finite c" and "101 / 100 \<le> c" and "1 \<le> n"
    and "imul n k = Inr a" and "py_int a = Inr m"
  shows "n \<le> m"
  using imul_scale_pos [OF assms(2) assms(3) assms(4) [unfolded assms(1)]] assms(5)
  by (auto simp: py_int_def intro: trunc_ge)

section \<open>The buyer's concession schedule\<close>




lemma proposal_mango: "spec_proposal 189000 147420 168498 200000 2 = Inr 168498"
  by (simp add: spec_proposal_def num_eval)



section \<open>Monotone buyer offers\<close>

lemma respond_counter_ge_last:
  "your_offers ctx \<noteq> [] \<Longrightarrow> last (your_offers ctx) \<le> your_budget ctx \<Longrightarrow>
   returns (respond_to_seller_offer ctx sp sm) (\<lambda>(status, price, msg). status = ONGOING \<longrightarrow>
     last (your_offers ctx) \<le> price)"
  unfolding respond_to_seller_offer_def Let_def
  apply (intro returns_intros)
         apply simp_all
  subgoal
    apply (frule py_int_min_max_ge)
    apply (auto simp: pybind_Inr_iff  split: if_splits)
    done
  subgoal
    apply (frule py_int_min_max_ge)
    apply (auto simp: pybind_Inr_iff  split: if_splits)
    done
  done

lemma mock_price_ge_offer:
  "returns (respond_to_buyer self buyer_offer round_num) (\<lambda>(price, msg, accepts). buyer_offer \<le> price)"
proof -
  have key: "buyer_offer \<le> max (min_price self) m"
    if good: "imul (min_price self) (fl (11 / 10)) = Inr good"
      and no: "\<not> py_le good (exact buyer_offer)"
      and k: "k = Finite c" "101 / 100 \<le> c"
      and a: "imul buyer_offer k = Inr a" and m: "py_int a = Inr m" for good k c a m
  proof (cases "buyer_offer \<le> min_price self")
    case True
    then show ?thesis by simp
  next
    case False
    show ?thesis
    proof (cases "1 \<le> buyer_offer")
      case True
      from imul_grow [OF k True a m] show ?thesis by simp
    next
      case b: False
      with False have neg: "min_price self \<le> - 1" by simp
      have "(101::rat) / 100 \<le> 2476979795053773 / 2251799813685248" by simp
      from imul_scale_neg [OF this neg good [unfolded scale_consts(1)]] no False
      have False
        by (auto simp: py_le_def exact_def)
      then show ?thesis ..
    qed
  qed
  show ?thesis
    unfolding respond_to_buyer_def Let_def
    apply (intro returns_intros)
      apply simp_all
    subgoal by (auto simp: pybind_Inr_iff intro: key [OF _ _ scale_consts(3)])
    subgoal by (auto simp: pybind_Inr_iff intro: key [OF _ _ scale_consts(2)])
    done
qed

lemma returns_conj: "returns m P \<Longrightarrow> returns m Q \<Longrightarrow> returns m (\<lambda>v. P v \<and> Q v)"
  by (cases m) (simp_all add: returns_def)

lemma respond_status:
  "returns (respond_to_seller_offer ctx sp sm) (\<lambda>(status, price, msg). status = ACCEPTED \<or> status = ONGOING)"
  unfolding respond_to_seller_offer_def Let_def
  by (intro returns_intros) simp_all

lemma respond_next_offer:
  assumes "respond_to_seller_offer ctx sp sm = Inr (status, offer, msg)"
    and "your_offers ctx \<noteq> []" and "last (your_offers ctx) \<le> your_budget ctx"
    and "last (your_offers ctx) \<le> sp"
  shows "last (your_offers ctx) \<le> offer \<and> offer \<le> your_budget ctx"
  using returnsD [OF respond_status assms(1)] returnsD [OF respond_le_budget assms(1)]
    returnsD [OF respond_accepted_price assms(1)]
    returnsD [OF respond_counter_ge_last [OF assms(2,3)] assms(1)] assms(4)
  by auto

lemma sorted_le_last: "sorted ys \<Longrightarrow> y \<in> set ys \<Longrightarrow> y \<le> (last ys :: int)"
  by (induction ys) (auto split: if_splits)

lemma sorted_snoc_last:
  "sorted ys \<Longrightarrow> ys \<noteq> [] \<Longrightarrow> last ys \<le> (x::int) \<Longrightarrow> sorted (ys @ [x])"
  using sorted_le_last [of ys] by (fastforce simp: sorted_append)

lemma run_rounds_sorted:
  "0 \<notin> set rs \<Longrightarrow> your_offers (loop_context st) \<noteq> [] \<Longrightarrow>
   sorted (your_offers (loop_context st)) \<Longrightarrow>
   last (your_offers (loop_context st)) \<le> your_budget (loop_context st) \<Longrightarrow>
   last (your_offers (loop_context st)) \<le> seller_price st \<Longrightarrow>
   returns (run_rounds YourBuyerAgent seller rs st) (\<lambda>st'. sorted (your_offers (loop_context st')))"
proof (induction rs arbitrary: st)
  case Nil
  then show ?case by (simp add: returns_def)
next
  case (Cons r rest)
  from Cons.prems(1) have r: "r \<noteq> 0" and rest: "0 \<notin> set rest" by auto
  let ?ctx = "(loop_context st)\<lparr>current_round := r + 1\<rparr>"
  have step: "last (your_offers (loop_context st)) \<le> offer \<and> offer \<le> your_budget (loop_context st)"
    if "respond_to_seller_offer ?ctx (seller_price st) (seller_msg st) = Inr (status, offer, msg)"
    for status offer msg
    using respond_next_offer [OF that] Cons.prems by simp
  show ?case
    unfolding run_rounds.simps Let_def
    apply (intro returns_intros)
      apply (use r Cons.prems in \<open>auto simp: YourBuyerAgent_def dest!: step intro: sorted_snoc_last\<close>)[2]
    apply (rule Cons.IH [OF rest])
    using r Cons.prems returnsD [OF mock_price_ge_offer]
       apply (auto simp: YourBuyerAgent_def dest!: step intro: sorted_snoc_last)
    done
qed

lemma upto_0_9: "[0..9] = 0 # [1..9]"
  by (simp add: upto.simps)

lemma run_rounds_sorted_from_start:
  assumes e: "your_offers (loop_context st) = []" and z: "0 \<notin> set rest"
  shows "returns (run_rounds YourBuyerAgent seller (0 # rest) st)
     (\<lambda>st'. sorted (your_offers (loop_context st')))"
proof -
  have ob: "offer \<le> your_budget (loop_context st)"
    if "generate_opening_offer ((loop_context st)\<lparr>current_round := 1\<rparr>) = Inr (offer, m)" for offer m
    using returnsD [OF opening_le_budget that] by simp
  have sb: "offer \<le> price"
    if "respond_to_buyer seller offer 0 = Inr (price, m, acc)" for offer price m acc
    using returnsD [OF mock_price_ge_offer that] by simp
  show ?thesis
    unfolding run_rounds.simps Let_def
    apply (intro returns_intros)
      apply (simp add: e)
     apply (simp add: e)
    apply (rule run_rounds_sorted [OF z])
       apply (simp add: e)
      apply (simp add: e)
     apply (auto simp: e YourBuyerAgent_def pybind_Inr_iff dest!: ob sb)
    done
qed

lemma run_offers_sorted:
  "returns (run_rounds YourBuyerAgent seller [0..9] (opening_state p budget price msg))
     (\<lambda>st. sorted (your_offers (loop_context st)))"
  unfolding upto_0_9
  by (rule run_rounds_sorted_from_start) (simp_all add: opening_state_def)

lemma run_final_state:
  assumes "run_negotiation_test agent p budget smin = Inr r"
  shows "\<exists>price msg st.
    get_opening_price \<lparr>min_price = smin, mock_personality = ''standard''\<rparr> p = Inr (price, msg) \<and>
    run_rounds agent \<lparr>min_price = smin, mock_personality = ''standard''\<rparr> [0..9]
      (opening_state p budget price msg) = Inr st \<and>
    conversation r = messages (loop_context st)"
proof -
  let ?s = "\<lparr>min_price = smin, mock_personality = ''standard''\<rparr>"
  from assms obtain price msg st where
    o: "get_opening_price ?s p = Inr (price, msg)"
    and run: "run_rounds agent ?s [0..9] (opening_state p budget price msg) = Inr st"
    and res: "(case (deal_made st, final_price st) of
       (True, Some fp) \<Rightarrow>
         pybind (int_truediv (budget - fp) budget) (\<lambda>s.
         pybind (int_truediv (base_market_price p - fp) (base_market_price p)) (\<lambda>b.
         Inr \<lparr>result_deal_made = True, result_final_price = Some fp,
              rounds = current_round (loop_context st),
              savings = budget - fp,
              savings_pct = fmul s (exact 100),
              below_market_pct = fmul b (exact 100),
              conversation = messages (loop_context st)\<rparr>))
     | (True, None) \<Rightarrow> Inl (Raised ''TypeError'')
     | (False, fp) \<Rightarrow>
         Inr \<lparr>result_deal_made = False, result_final_price = fp,
              rounds = current_round (loop_context st),
              savings = 0, savings_pct = exact 0, below_market_pct = exact 0,
              conversation = messages (loop_context st)\<rparr>) = Inr r"
    by (auto simp: run_negotiation_test_def opening_state_def pybind_Inr_iff Let_def)
  have "conversation r = messages (loop_context st)"
    using res by (auto simp: pybind_Inr_iff split: bool.splits option.splits if_splits)
  with o run show ?thesis by blast
qed

lemma mango_run_state:
  "run_rounds YourBuyerAgent \<lparr>min_price = 150000, mock_personality = ''standard''\<rparr> [0..9]
     (opening_state mango 200000 270000 (Mock_asking_msg 270000)) =
   Inr \<lparr>loop_context = \<lparr>product = mango, your_budget = 200000, current_round = 2,
        seller_offers = [270000, 169533], your_offers = [147420, 169533],
        messages = [(Seller, Mock_asking_msg 270000), (Buyer, Opening_msg 147420),
          (Seller, Mock_come_down_msg 169533), (Buyer, Agreed_msg 169533)]\<rparr>,
      seller_price = 169533, seller_msg = Mock_come_down_msg 169533,
      deal_made = True, final_price = Some 169533\<rparr>"
  by (simp add: upto_eval run_rounds.simps(2) opening_state_def YourBuyerAgent_def
      generate_opening_offer_def respond_to_seller_offer_def respond_to_buyer_def
      fair_mango zone_mango num_eval)

lemma mango_run_value:
  "run_negotiation_test YourBuyerAgent mango 200000 150000 =
   Inr \<lparr>result_deal_made = True, result_final_price = Some 169533, rounds = 2,
     savings = 30467,
     savings_pct = Finite (2143924528860889 / 140737488355328),
     below_market_pct = Finite (6547107958289859 / 1125899906842624),
     conversation = [(Seller, Mock_asking_msg 270000), (Buyer, Opening_msg 147420),
       (Seller, Mock_come_down_msg 169533), (Buyer, Agreed_msg 169533)]\<rparr>"
proof -
  have m: "base_market_price mango = 180000" by (simp add: mango_def)
  show ?thesis
    unfolding run_negotiation_test_def Let_def
    using mango_run_state
    by (simp add: mock_opening_mango opening_state_def m num_eval)
qed

text \<open>
  C6 (monotonic convergence). In every run of \<open>run_negotiation_test\<close> with YourBuyerAgent
  that returns a result, the buyer offers recorded in \<open>your_offers\<close> when the loop ends
  (offers are only ever appended) are in non-decreasing order; and for every context with
  a last recorded offer that is at most the budget, a counter-offer returned by
  \<open>respond_to_seller_offer\<close> with status ONGOING is at least that last offer.
\<close>

theorem buyer_offers_nondecreasing:
  "(run_negotiation_test YourBuyerAgent p budget smin = Inr r \<longrightarrow>
     (\<exists>price msg st.
        get_opening_price \<lparr>min_price = smin, mock_personality = ''standard''\<rparr> p = Inr (price, msg) \<and>
        run_rounds YourBuyerAgent \<lparr>min_price = smin, mock_personality = ''standard''\<rparr> [0..9]
          (opening_state p budget price msg) = Inr st \<and>
        conversation r = messages (loop_context st) \<and>
        sorted (your_offers (loop_context st)))) \<and>
   (your_offers ctx \<noteq> [] \<and> last (your_offers ctx) \<le> your_budget ctx \<and>
    respond_to_seller_offer ctx sp sm = Inr (ONGOING, offer, msg') \<longrightarrow>
      last (your_offers ctx) \<le> offer)"
proof (intro conjI impI)
  assume "run_negotiation_test YourBuyerAgent p budget smin = Inr r"
  from run_final_state [OF this] obtain price msg st where
    a: "get_opening_price \<lparr>min_price = smin, mock_personality = ''standard''\<rparr> p = Inr (price, msg)"
      "run_rounds YourBuyerAgent \<lparr>min_price = smin, mock_personality = ''standard''\<rparr> [0..9]
          (opening_state p budget price msg) = Inr st"
      "conversation r = messages (loop_context st)"
    by blast
  from returnsD [OF run_offers_sorted a(2)] a
  show "\<exists>price msg st.
        get_opening_price \<lparr>min_price = smin, mock_personality = ''standard''\<rparr> p = Inr (price, msg) \<and>
        run_rounds YourBuyerAgent \<lparr>min_price = smin, mock_personality = ''standard''\<rparr> [0..9]
          (opening_state p budget price msg) = Inr st \<and>
        conversation r = messages (loop_context st) \<and>
        sorted (your_offers (loop_context st))"
    by blast
next
  assume a: "your_offers ctx \<noteq> [] \<and> last (your_offers ctx) \<le> your_budget ctx \<and>
    respond_to_seller_offer ctx sp sm = Inr (ONGOING, offer, msg')"
  then have "your_offers ctx \<noteq> []" "last (your_offers ctx) \<le> your_budget ctx"
    "respond_to_seller_offer ctx sp sm = Inr (ONGOING, offer, msg')" by simp_all
  from returnsD [OF respond_counter_ge_last [OF this(1,2)] this(3)]
  show "last (your_offers ctx) \<le> offer" by simp
qed

theorem buyer_offers_nondecreasing_witness:
  "run_negotiation_test YourBuyerAgent mango 200000 150000 =
   Inr \<lparr>result_deal_made = True, result_final_price = Some 169533, rounds = 2,
     savings = 30467,
     savings_pct = Finite (2143924528860889 / 140737488355328),
     below_market_pct = Finite (6547107958289859 / 1125899906842624),
     conversation = [(Seller, Mock_asking_msg 270000), (Buyer, Opening_msg 147420),
       (Seller, Mock_come_down_msg 169533), (Buyer, Agreed_msg 169533)]\<rparr> \<and>
   sorted (your_offers (loop_context (projr
     (run_rounds YourBuyerAgent \<lparr>min_price = 150000, mock_personality = ''standard''\<rparr> [0..9]
        (opening_state mango 200000 270000 (Mock_asking_msg 270000)))))) \<and>
   your_offers (mango_context 200000 2 [147420]) \<noteq> [] \<and>
   last (your_offers (mango_context 200000 2 [147420])) \<le> your_budget (mango_context 200000 2 [147420]) \<and>
   respond_to_seller_offer (mango_context 200000 2 [147420]) 270000 (Mock_come_down_msg 270000)
     = Inr (ONGOING, 168498, Move_to_msg 168498) \<and>
   last (your_offers (mango_context 200000 2 [147420])) \<le> 168498"
proof -
  note t = buyer_offers_nondecreasing [where p = mango and budget = 200000 and smin = 150000
      and ctx = "mango_context 200000 2 [147420]" and sp = 270000
      and sm = "Mock_come_down_msg 270000" and offer = 168498 and msg' = "Move_to_msg 168498"]
  have c: "your_offers (mango_context 200000 2 [147420]) \<noteq> []"
    "last (your_offers (mango_context 200000 2 [147420])) \<le> your_budget (mango_context 200000 2 [147420])"
    by (simp_all add: mango_context_def)
  from t mango_run_value obtain price msg st where
    a: "get_opening_price \<lparr>min_price = 150000, mock_personality = ''standard''\<rparr> mango = Inr (price, msg)"
      "run_rounds YourBuyerAgent \<lparr>min_price = 150000, mock_personality = ''standard''\<rparr> [0..9]
          (opening_state mango 200000 price msg) = Inr st"
      "sorted (your_offers (loop_context st))"
    by blast
  from a(1) mock_opening_mango have "price = 270000" "msg = Mock_asking_msg 270000" by simp_all
  with a(2,3) have s: "sorted (your_offers (loop_context (projr
     (run_rounds YourBuyerAgent \<lparr>min_price = 150000, mock_personality = ''standard''\<rparr> [0..9]
        (opening_state mango 200000 270000 (Mock_asking_msg 270000))))))"
    by simp
  from t c respond_mango_counter
  have "last (your_offers (mango_context 200000 2 [147420])) \<le> 168498" by blast
  with s c mango_run_value respond_mango_counter show ?thesis by simp
qed

section \<open>The seller's floor\<close>

lemma trunc_mono: "r \<le> s \<Longrightarrow> trunc r \<le> trunc s"
proof -
  assume rs: "r \<le> s"
  show ?thesis
  proof (cases "0 \<le> r")
    case True
    with rs show ?thesis by (simp add: trunc_def floor_mono)
  next
    case False
    show ?thesis
    proof (cases "0 \<le> s")
      case True
      from False have "\<lceil>r\<rceil> \<le> 0" by (simp add: ceiling_le_iff)
      moreover from True have "0 \<le> \<lfloor>s\<rfloor>" by simp
      ultimately have "\<lceil>r\<rceil> \<le> \<lfloor>s\<rfloor>" by linarith
      then show ?thesis using False True by (simp add: trunc_def)
    next
      case s: False
      with False rs show ?thesis by (simp add: trunc_def ceiling_mono)
    qed
  qed
qed

lemma step_down_cases:
  "\<exists>c. fadd (fl 1) (step_down round_num) = Finite c \<and> 101 / 100 \<le> c"
proof -
  consider "step_down round_num = fl (7 / 100)" | "step_down round_num = fl (5 / 100)"
    | "step_down round_num = fl (3 / 100)"
    unfolding step_down_def Let_def by metis
  then show ?thesis
  proof cases
    case 1
    show ?thesis unfolding 1 scale_consts by (intro exI conjI, rule refl) simp
  next
    case 2
    show ?thesis unfolding 2 scale_consts by (intro exI conjI, rule refl) simp
  next
    case 3
    show ?thesis unfolding 3 scale_consts by (intro exI conjI, rule refl) simp
  qed
qed

lemma imul_nonneg_cases:
  assumes "101 / 100 \<le> c" and "0 \<le> n" and "imul n (Finite c) = Inr a"
  shows "(\<exists>z. a = Finite z \<and> of_int n \<le> z) \<or> a = PosInf"
proof (cases "n = 0")
  case True
  with assms(3) show ?thesis by (auto simp: imul_zero)
next
  case False
  with assms(2) have "1 \<le> n" by simp
  from imul_scale_pos [OF assms(1) this assms(3)] show ?thesis .
qed

lemma int_truediv_Finite: "int_truediv a b = Inr m \<Longrightarrow> \<exists>q. m = Finite q"
  by (auto simp: int_truediv_def split: if_splits pyfloat.splits) metis

lemma py_int_max2_ge:
  assumes "m = Finite q" and "(\<exists>z. a = Finite z \<and> of_int n \<le> z) \<or> a = PosInf"
    and "py_int (py_max2 m a) = Inr c"
  shows "\<exists>k. py_int a = Inr k \<and> n \<le> k \<and> k \<le> c"
  using assms(2)
proof
  assume "\<exists>z. a = Finite z \<and> of_int n \<le> z"
  then obtain z where z: "a = Finite z" "of_int n \<le> z" by blast
  have "trunc z \<le> c"
    using assms(1,3) z(1) trunc_mono [of z q]
    by (auto simp: py_max2_def py_lt_def py_int_def split: if_splits)
  with z trunc_ge [OF z(2)] show ?thesis by (simp add: py_int_def)
next
  assume "a = PosInf"
  with assms(1,3) show ?thesis by (simp add: py_max2_def py_lt_def py_int_def)
qed

lemma seller_counter_floor:
  assumes "fair_price p = Inr fair" and "0 \<le> fair"
  shows "returns (respond_to_buyer_offer self p buyer_offer round_num) (\<lambda>(status, counter, msg).
     status = ''ongoing'' \<longrightarrow> fair \<le> counter \<and>
       (\<exists>a k. imul fair (fadd (fl 1) (step_down round_num)) = Inr a \<and> py_int a = Inr k \<and>
          fair \<le> k \<and> k \<le> counter))"
proof -
  have key: "\<exists>k. py_int a = Inr k \<and> fair \<le> k \<and> k \<le> c"
    if "int_truediv x 2 = Inr m" and "imul fair (fadd (fl 1) (step_down round_num)) = Inr a"
      and "py_int (py_max2 m a) = Inr c" for x m a c
  proof -
    from step_down_cases [of round_num] obtain cc where
      cc: "fadd (fl 1) (step_down round_num) = Finite cc" "101 / 100 \<le> cc" by blast
    from int_truediv_Finite [OF that(1)] obtain q where q: "m = Finite q" ..
    from py_int_max2_ge [OF q imul_nonneg_cases [OF cc(2) assms(2) that(2) [unfolded cc(1)]] that(3)]
    show ?thesis .
  qed
  have sd: "(if 6 \<le> 10 - (round_num + 1) then fl (7 / 100)
             else if 3 \<le> 10 - (round_num + 1) then fl (5 / 100) else fl (3 / 100)) = step_down round_num"
    by (simp add: step_down_def)
  show ?thesis
    unfolding respond_to_buyer_offer_def Let_def sd
    apply (intro returns_intros)
        apply (simp_all add: assms)
    apply clarify
    apply (frule (2) key)
    apply auto
    done
qed

lemma round_half_even_nonneg: "0 \<le> t \<Longrightarrow> 0 \<le> round_half_even t"
proof -
  assume "0 \<le> t"
  then have "0 \<le> \<lfloor>t\<rfloor>" by simp
  then show ?thesis by (auto simp: round_half_even_def Let_def)
qed

lemma fl_nonneg: "0 \<le> x \<Longrightarrow> fl x = Finite y \<Longrightarrow> 0 \<le> y"
proof -
  assume x: "0 \<le> x" and f: "fl x = Finite y"
  define u where "u = pow2 (max (ilog2 x) (- 1022) - 52)"
  have u: "0 < u" by (simp add: u_def pow2_pos)
  have "0 \<le> x / u" using x u by simp
  then have "0 \<le> round_half_even (x / u)" by (rule round_half_even_nonneg)
  then have "0 \<le> of_int (round_half_even (x / u)) * u" using u by simp
  moreover from f have "y = of_int (round_half_even (x / u)) * u \<or> y = 0"
    unfolding fl_def Let_def u_def by (simp split: if_splits)
  ultimately show ?thesis by auto
qed

lemma fl_not_negative:
  assumes "0 \<le> x"
  shows "fl x \<noteq> NegInf \<and> (\<forall>y. fl x = Finite y \<longrightarrow> 0 \<le> y)"
  using assms fl_cases [of x] fl_nonneg [of x] by auto

lemma fmul_not_negative:
  assumes "a \<noteq> NegInf \<and> (\<forall>y. a = Finite y \<longrightarrow> 0 \<le> y)"
    and "b \<noteq> NegInf \<and> (\<forall>y. b = Finite y \<longrightarrow> 0 \<le> y)"
  shows "fmul a b \<noteq> NegInf \<and> (\<forall>y. fmul a b = Finite y \<longrightarrow> 0 \<le> y)"
proof (cases a)
  case (Finite x)
  show ?thesis
  proof (cases b)
    case b: (Finite c)
    from Finite b assms have "0 \<le> x * c" by simp
    from fl_not_negative [OF this] Finite b show ?thesis by (simp add: fmul_def)
  qed (use Finite assms in \<open>auto simp: fmul_def\<close>)
qed (use assms in \<open>cases b; auto simp: fmul_def\<close>)+

lemma seller_fair_price_nonneg:
  assumes "0 \<le> base_market_price p" and "fair_price p = Inr fair"
  shows "0 \<le> fair"
proof -
  let ?nn = "\<lambda>a. a \<noteq> NegInf \<and> (\<forall>y. a = Finite y \<longrightarrow> 0 \<le> y)"
  define qf where "qf = seller_quality_multiplier p"
  define orf where "orf = (if lower (origin p) \<in> {''colombia'', ''ethiopia'', ''yirgacheffe''}
                        then fl (105 / 100) else fl 1)"
  have q: "?nn qf"
    unfolding qf_def seller_quality_multiplier_def Let_def
    using fl_not_negative [of "115 / 100"] fl_not_negative [of "106 / 100"]
      fl_not_negative [of "94 / 100"] fl_not_negative [of 1]
    by (simp del: divide_le_eq_numeral1 le_divide_eq_numeral1)
  have o: "?nn orf"
    unfolding orf_def using fl_not_negative [of "105 / 100"] fl_not_negative [of 1]
    by (simp del: divide_le_eq_numeral1 le_divide_eq_numeral1)
  have l: "?nn (fl (101 / 100))" using fl_not_negative [of "101 / 100"] by simp
  from assms(2) obtain x where x: "imul (base_market_price p) qf = Inr x"
    and r: "py_round (fmul (fmul x orf) (fl (101 / 100))) = Inr fair"
    by (auto simp: fair_price_def Let_def pybind_Inr_iff qf_def orf_def)
  from x obtain y where y: "fl (of_int (base_market_price p)) = Finite y" and x': "x = fmul (Finite y) qf"
    by (auto simp: imul_def float_of_int_def pybind_def split: pyfloat.splits)
  from assms(1) have "(0::rat) \<le> of_int (base_market_price p)" by simp
  from fl_not_negative [OF this] y have "?nn (Finite y)" by simp
  from fmul_not_negative [OF fmul_not_negative [OF fmul_not_negative [OF this q] o] l] x'
  have "?nn (fmul (fmul x orf) (fl (101 / 100)))" by simp
  with r show ?thesis
    by (cases "fmul (fmul x orf) (fl (101 / 100))") (auto simp: py_round_def intro: round_half_even_nonneg)
qed

lemma respond_has_fair_price:
  "respond_to_buyer_offer self p buyer_offer round_num = Inr v \<Longrightarrow> \<exists>fair. fair_price p = Inr fair"
  by (cases "fair_price p") (simp_all add: respond_to_buyer_offer_def)

lemma seller_fair_small: "fair_price small_product = Inr 9"
  by (simp add: fair_price_def seller_quality_multiplier_def small_product_def str_eval num_eval)

lemma seller_zone_small: "seller_zone small_product = Inr (9, 9)"
  by (simp add: seller_zone_def seller_fair_small num_eval)

lemma seller_respond_small:
  "respond_to_buyer_offer diplomatic_seller small_product 0 0
     = Inr (''ongoing'', 9, Seller_improve_msg 9 ''We can bridge this thoughtfully.'')"
  by (simp add: respond_to_buyer_offer_def seller_fair_small seller_zone_small catchphrase_def
      diplomatic_seller_def seller_define_personality_def num_eval)

lemma seller_fair_mango: "fair_price mango = Inr 192708"
  by (simp add: fair_price_def seller_quality_multiplier_def mango_def str_eval num_eval)

lemma seller_zone_mango: "seller_zone mango = Inr (192708, 211978)"
  by (simp add: seller_zone_def seller_fair_mango num_eval)

lemma seller_respond_mango:
  "respond_to_buyer_offer diplomatic_seller mango 150000 3
     = Inr (''ongoing'', 206197, Seller_improve_msg 206197 ''We can bridge this thoughtfully.'')"
  by (simp add: respond_to_buyer_offer_def seller_fair_mango seller_zone_mango catchphrase_def
      diplomatic_seller_def seller_define_personality_def num_eval)

lemma seller_step_mango:
  "imul 192708 (fadd (fl 1) (step_down 3)) = Inr (Finite (3542447106859991 / 17179869184))"
  by (simp add: step_down_def num_eval)

text \<open>
  C9 as stated fails: the counter ask is \<open>int(max(midpoint, fair * (1 + step_down)))\<close>, and
  the truncation can take it below \<open>fair * (1 + step_down)\<close>. For a product with base
  price 9 the seller's fair price is 9; a buyer offer of 0 in round 0 is answered with the
  ask 9, which is the fair price itself and less than \<open>9 * 1.07 = 9.63\<close>.
\<close>

theorem seller_ask_below_step_counterexample:
  "respond_to_buyer_offer diplomatic_seller small_product 0 0
     = Inr (''ongoing'', 9, Seller_improve_msg 9 ''We can bridge this thoughtfully.'') \<and>
   fair_price small_product = Inr 9 \<and>
   imul 9 (fadd (fl 1) (step_down 0)) = Inr (Finite (5421208051447235 / 562949953421312)) \<and>
   py_lt (exact 9) (Finite (5421208051447235 / 562949953421312))"
  using seller_respond_small seller_fair_small
  by (simp add: step_down_def num_eval)

text \<open>
  C9 (seller floor), amended. For every product with a non-negative base market price,
  every buyer offer and every round number, when \<open>respond_to_buyer_offer\<close> returns the
  status "ongoing", the counter ask is at least \<open>int(fair * (1 + step_down))\<close>, which is at
  least the seller's own fair price; \<open>step_down\<close> is 7%, 5% or 3% by rounds remaining.
  The ask can be below \<open>fair * (1 + step_down)\<close> and can equal the fair price before
  round 8, as it does in round 0 for the product above.
\<close>

theorem seller_floor:
  "0 \<le> base_market_price p \<Longrightarrow>
   respond_to_buyer_offer self p buyer_offer round_num = Inr (''ongoing'', counter, msg) \<Longrightarrow>
   \<exists>fair a k. fair_price p = Inr fair \<and>
     imul fair (fadd (fl 1) (step_down round_num)) = Inr a \<and> py_int a = Inr k \<and>
     fair \<le> k \<and> k \<le> counter"
proof -
  assume b: "0 \<le> base_market_price p"
    and r: "respond_to_buyer_offer self p buyer_offer round_num = Inr (''ongoing'', counter, msg)"
  from respond_has_fair_price [OF r] obtain fair where f: "fair_price p = Inr fair" ..
  from seller_fair_price_nonneg [OF b f] have "0 \<le> fair" .
  from returnsD [OF seller_counter_floor [OF f this] r] f show ?thesis by auto
qed

theorem seller_floor_witness:
  "0 \<le> base_market_price mango \<and>
   respond_to_buyer_offer diplomatic_seller mango 150000 3
     = Inr (''ongoing'', 206197, Seller_improve_msg 206197 ''We can bridge this thoughtfully.'') \<and>
   fair_price mango = Inr 192708 \<and>
   imul 192708 (fadd (fl 1) (step_down 3)) = Inr (Finite (3542447106859991 / 17179869184)) \<and>
   py_int (Finite (3542447106859991 / 17179869184)) = Inr 206197 \<and>
   (192708 :: int) \<le> 206197"
proof -
  have b: "0 \<le> base_market_price mango" by (simp add: mango_def)
  from seller_floor [OF b seller_respond_mango] obtain fair a k where
    f: "fair_price mango = Inr fair"
    and a: "imul fair (fadd (fl 1) (step_down 3)) = Inr a" and k: "py_int a = Inr k"
    and le: "fair \<le> k" "k \<le> 206197"
    by blast
  from f seller_fair_mango have fair: "fair = 192708" by simp
  with a seller_step_mango have "a = Finite (3542447106859991 / 17179869184)" by simp
  with k have "py_int (Finite (3542447106859991 / 17179869184)) = Inr k" by simp
  moreover have i: "py_int (Finite (3542447106859991 / 17179869184)) = Inr 206197"
    by (simp add: num_eval)
  ultimately have "k = 206197" by simp
  with le fair b seller_respond_mango seller_fair_mango seller_step_mango i
  show ?thesis by simp
qed


end
